theory Spec2Isabelle
  imports Main
begin

section \<open>Hexapod web control (hexweb7.py): command slot, motion worker, stop gate\<close>

text \<open>
  The development follows \<^verbatim>\<open>src/hexweb7.py\<close>. The Flask handlers, the background
  worker and the effect threads all act on one \<^verbatim>\<open>WebState\<close> object and on the module
  global \<^verbatim>\<open>STOP_ALL\<close>; every access that matters is made inside \<^verbatim>\<open>with lock\<close>, so each
  locked section is one atomic step of the model and the threads interleave between
  such steps. The hardware objects (\<^verbatim>\<open>state.ctrl\<close>, \<^verbatim>\<open>state.ctrl.servo\<close>, \<^verbatim>\<open>state.led\<close>,
  \<^verbatim>\<open>state.buzzer\<close>) belong to external libraries; a call to one of them is recorded,
  in order, in a log kept with the state.
\<close>

subsection \<open>Constants and configuration\<close>

definition TABLETOP_Z :: int where "TABLETOP_Z = 40"
definition RESET_Z :: int where "RESET_Z = 15"
definition MAX_Z :: int where "MAX_Z = 45"
definition MIN_Z :: int where "MIN_Z = -30"

definition PAN_PORT :: int where "PAN_PORT = 24"
definition TILT_PORT :: int where "TILT_PORT = 25"

text \<open>
  The pan/tilt limits come from \<^verbatim>\<open>pan_tilt_limits.json\<close> and the per-port offsets from
  \<^verbatim>\<open>servo_offsets.json\<close>, both read once when the module is loaded; they are
  parameters here. Without the files the limits are \<open>0, 180, 0, 180\<close> and the offset
  table is empty.
\<close>

record config =
  PAN_MIN :: int
  PAN_MAX :: int
  TILT_MIN :: int
  TILT_MAX :: int
  OFFSETS :: "int \<Rightarrow> int option"

definition default_config :: config where
  "default_config =
     \<lparr>PAN_MIN = 0, PAN_MAX = 180, TILT_MIN = 0, TILT_MAX = 180, OFFSETS = Map.empty\<rparr>"

definition with_offset :: "config \<Rightarrow> int \<Rightarrow> int \<Rightarrow> int" where
  "with_offset cfg port angle =
     (let off = (case OFFSETS cfg port of None \<Rightarrow> 0 | Some v \<Rightarrow> v);
          a = angle + off;
          a = (if a < 0 then 0 else a);
          a = (if a > 180 then 180 else a)
      in a)"

definition clamp :: "int \<Rightarrow> int \<Rightarrow> int \<Rightarrow> int" where
  "clamp v lo hi = max lo (min hi v)"

subsection \<open>Hardware calls and the shared state\<close>

text \<open>
  One constructor per method the program calls on the external objects.
  \<open>Color_wipe_scaled r g b lvl\<close> is the call \<^verbatim>\<open>color_wipe([int(r*scale), ...])\<close> of
  \<^verbatim>\<open>led_breathe\<close> with \<^verbatim>\<open>scale = lvl / 20.0\<close>, and \<open>Color_wipe_hsv k steps\<close> the call
  \<^verbatim>\<open>color_wipe(hsv_to_rgb(k / float(steps)))\<close> of \<^verbatim>\<open>led_rainbow\<close>: the colours are
  computed in floating point and are left symbolic.
\<close>

datatype hwcall =
    Relax
  | Run_gait "string list"
  | Move_position int int int
  | Set_servo_angle int int
  | Color_wipe int int int
  | Color_wipe_scaled int int int nat
  | Color_wipe_hsv nat nat
  | Buzzer_set_state bool
  | Read_battery_voltage
  | Get_distance

record webstate =
  body_z :: int
  pan_angle :: int
  tilt_angle :: int
  current_cmd :: "string option"
  thread_running :: bool
  active_preset :: "string option"
  STOP_ALL :: bool
  hw :: "hwcall list"

definition call :: "hwcall \<Rightarrow> webstate \<Rightarrow> webstate" where
  "call c s = s\<lparr>hw := hw s @ [c]\<rparr>"

text \<open>
  \<^verbatim>\<open>WebState.__init__\<close> followed by the module-level \<^verbatim>\<open>STOP_ALL = False\<close>. The two
  pan/tilt writes of the constructor go to the original \<^verbatim>\<open>set_servo_angle\<close>: the
  wrapper is installed afterwards.
\<close>

definition init_state :: "config \<Rightarrow> webstate" where
  "init_state cfg =
     \<lparr>body_z = RESET_Z, pan_angle = 90, tilt_angle = 90, current_cmd = None,
      thread_running = True, active_preset = None, STOP_ALL = False,
      hw = [Move_position 0 0 RESET_Z,
            Set_servo_angle PAN_PORT (with_offset cfg PAN_PORT 90),
            Set_servo_angle TILT_PORT (with_offset cfg TILT_PORT 90)]\<rparr>"

subsection \<open>The stop gate\<close>

text \<open>
  \<^verbatim>\<open>guarded_set_servo_angle\<close> replaces \<^verbatim>\<open>state.ctrl.servo.set_servo_angle\<close> on the servo
  object, so every later call of that attribute runs it.
\<close>

definition guarded_set_servo_angle :: "int \<Rightarrow> int \<Rightarrow> webstate \<Rightarrow> webstate" where
  "guarded_set_servo_angle channel angle s =
     (if STOP_ALL s then s else call (Set_servo_angle channel angle) s)"

subsection \<open>The motion worker\<close>

text \<open>
  The worker's position in \<^verbatim>\<open>movement_worker\<close>: before the loop test, before the first
  locked section, holding a fetched command before its action, holding the new height
  before \<^verbatim>\<open>move_position\<close>, before the last locked section, after the loop, and dead
  from an exception that nothing in the function catches.
\<close>

datatype wpc =
    W_test
  | W_fetch
  | W_exec string
  | W_move string int
  | W_clear string
  | W_exited
  | W_crashed

text \<open>
  An external call that raises: the function has no \<^verbatim>\<open>try\<close>, so the exception leaves
  it and the thread ends. \<open>fails\<close> says which calls raise; it is followed through the
  worker and through \<^verbatim>\<open>stopall_route\<close>; the other handlers and the effect threads are
  described for calls that return.
\<close>

definition worker_call :: "(hwcall \<Rightarrow> bool) \<Rightarrow> hwcall \<Rightarrow> wpc \<Rightarrow> webstate \<Rightarrow> wpc \<times> webstate" where
  "worker_call fails c pc s = (if fails c then (W_crashed, call c s) else (pc, call c s))"

fun worker_step :: "(hwcall \<Rightarrow> bool) \<Rightarrow> wpc \<times> webstate \<Rightarrow> wpc \<times> webstate" where
  "worker_step fails (W_test, s) =
     (if thread_running s then (W_fetch, s) else (W_exited, s))"
| "worker_step fails (W_fetch, s) =
     (if STOP_ALL s then
        (if fails Relax then (W_crashed, call Relax s)
         else (W_test, (call Relax s)\<lparr>current_cmd := None\<rparr>))
      else (case current_cmd s of
              None \<Rightarrow> (W_test, s)
            | Some cmd \<Rightarrow> (W_exec cmd, s)))"
| "worker_step fails (W_exec cmd, s) =
     (if cmd = ''fwd'' then
        worker_call fails (Run_gait [''CMD_MOVE'', ''1'', ''0'', ''35'', ''10'', ''0'']) (W_clear cmd) s
      else if cmd = ''back'' then
        worker_call fails (Run_gait [''CMD_MOVE'', ''2'', ''0'', ''-35'', ''10'', ''10'']) (W_clear cmd) s
      else if cmd = ''right'' then
        worker_call fails (Run_gait [''CMD_MOVE'', ''1'', ''35'', ''0'', ''10'', ''0'']) (W_clear cmd) s
      else if cmd = ''left'' then
        worker_call fails (Run_gait [''CMD_MOVE'', ''1'', ''-35'', ''0'', ''10'', ''0'']) (W_clear cmd) s
      else if cmd = ''turn_left'' then
        worker_call fails (Run_gait [''CMD_MOVE'', ''1'', ''0'', ''0'', ''10'', ''20'']) (W_clear cmd) s
      else if cmd = ''turn_right'' then
        worker_call fails (Run_gait [''CMD_MOVE'', ''1'', ''0'', ''0'', ''10'', ''-20'']) (W_clear cmd) s
      else if cmd = ''raise'' then
        (let z = clamp (body_z s + 2) MIN_Z MAX_Z in (W_move cmd z, s\<lparr>body_z := z\<rparr>))
      else if cmd = ''lower'' then
        (let z = clamp (body_z s - 2) MIN_Z MAX_Z in (W_move cmd z, s\<lparr>body_z := z\<rparr>))
      else if cmd = ''tabletop'' then
        (let s' = s\<lparr>body_z := clamp TABLETOP_Z MIN_Z MAX_Z\<rparr> in (W_move cmd (body_z s'), s'))
      else if cmd = ''reset'' then
        (let s' = s\<lparr>body_z := clamp RESET_Z MIN_Z MAX_Z\<rparr> in (W_move cmd (body_z s'), s'))
      else (W_clear cmd, s))"
| "worker_step fails (W_move cmd z, s) =
     worker_call fails (Move_position 0 0 z) (W_clear cmd) s"
| "worker_step fails (W_clear cmd, s) =
     (W_test, if current_cmd s = Some cmd then s\<lparr>current_cmd := None\<rparr> else s)"
| "worker_step fails (W_exited, s) = (W_exited, s)"
| "worker_step fails (W_crashed, s) = (W_crashed, s)"

text \<open>The worker running alone for \<open>n\<close> of its steps.\<close>

fun worker_steps :: "(hwcall \<Rightarrow> bool) \<Rightarrow> nat \<Rightarrow> wpc \<times> webstate \<Rightarrow> wpc \<times> webstate" where
  "worker_steps fails 0 c = c"
| "worker_steps fails (Suc n) c = worker_steps fails n (worker_step fails c)"

text \<open>
  One pass through the loop body with no other thread in between: from the loop test
  until the worker is back at the loop test (or has ended). A pass has at most five
  steps.
\<close>

fun worker_pass :: "(hwcall \<Rightarrow> bool) \<Rightarrow> nat \<Rightarrow> wpc \<times> webstate \<Rightarrow> wpc \<times> webstate" where
  "worker_pass fails 0 c = c"
| "worker_pass fails (Suc n) c =
     (case worker_step fails c of
        (W_test, s') \<Rightarrow> (W_test, s')
      | (W_exited, s') \<Rightarrow> (W_exited, s')
      | (W_crashed, s') \<Rightarrow> (W_crashed, s')
      | c' \<Rightarrow> worker_pass fails n c')"

definition worker_tick :: "(hwcall \<Rightarrow> bool) \<Rightarrow> webstate \<Rightarrow> wpc \<times> webstate" where
  "worker_tick fails s = worker_pass fails 5 (W_test, s)"

definition no_failure :: "hwcall \<Rightarrow> bool" where
  "no_failure c = False"

subsection \<open>Key mapping and the request handlers\<close>

definition map_key_to_cmd :: "string \<Rightarrow> string option \<times> string" where
  "map_key_to_cmd key =
     (if key = ''w'' then (Some ''fwd'', ''Forward'')
      else if key = ''s'' then (Some ''back'', ''Backward'')
      else if key = ''d'' then (Some ''right'', ''Right'')
      else if key = ''a'' then (Some ''left'', ''Left'')
      else if key = ''j'' then (Some ''turn_left'', ''Turn Left'')
      else if key = ''l'' then (Some ''turn_right'', ''Turn Right'')
      else if key = ''i'' then (Some ''raise'', ''Raise body'')
      else if key = ''k'' then (Some ''lower'', ''Lower body'')
      else if key = ''t'' then (Some ''tabletop'', ''Tabletop pose'')
      else if key = ''r'' then (Some ''reset'', ''Reset pose'')
      else (None, ''Unknown hexapod command''))"

text \<open>
  The route handlers take the request fields after the route's own normalisation
  (\<^verbatim>\<open>.lower()\<close>, \<^verbatim>\<open>int(...)\<close>, defaults) and return the new state with the \<^verbatim>\<open>message\<close>
  (or the \<^verbatim>\<open>pan\<close>, \<^verbatim>\<open>tilt\<close> pair) of the JSON answer.
\<close>

definition cmd_route :: "string \<Rightarrow> webstate \<Rightarrow> webstate \<times> string" where
  "cmd_route key s =
     (let s1 = s\<lparr>STOP_ALL := False\<rparr>;
          (cmd, msg) = map_key_to_cmd key
      in (case cmd of
            Some c \<Rightarrow> (s1\<lparr>current_cmd := Some c\<rparr>, msg)
          | None \<Rightarrow> (s1, ''Unknown hexapod command'')))"

text \<open>
  \<^verbatim>\<open>stopall_route\<close> calls \<^verbatim>\<open>relax()\<close> between setting the flag and clearing the slot. When
  the call raises, the exception leaves the handler (the request is answered with an
  error): the flag is set, and the slot and the preset id are as they were.
\<close>

datatype outcome = Returned | Raised

definition stopall_route :: "(hwcall \<Rightarrow> bool) \<Rightarrow> webstate \<Rightarrow> webstate \<times> outcome" where
  "stopall_route fails s =
     (let s1 = s\<lparr>STOP_ALL := True\<rparr>;
          s2 = call Relax s1
      in if fails Relax then (s2, Raised)
         else (let s3 = s2\<lparr>current_cmd := None\<rparr>
               in (s3\<lparr>active_preset := None\<rparr>, Returned)))"

text \<open>
  \<^verbatim>\<open>handle_pan_tilt\<close> runs inside the lock from its first line to its last. Its
  \<^verbatim>\<open>relax\<close> branch returns early, after \<^verbatim>\<open>relax()\<close> and without any servo write; every
  other command, known or not, ends with the two servo writes.
\<close>

definition handle_pan_tilt :: "config \<Rightarrow> string \<Rightarrow> int \<Rightarrow> webstate \<Rightarrow> webstate \<times> int \<times> int" where
  "handle_pan_tilt cfg cmd step s =
     (let pan = pan_angle s; tilt = tilt_angle s in
      if cmd = ''relax'' then
        (let s1 = call Relax s in
         (s1\<lparr>pan_angle := pan, tilt_angle := tilt\<rparr>, pan, tilt))
      else
        (let (pan, tilt) =
           (if cmd = ''center'' then (90, 90)
            else if cmd = ''pan_left'' then (clamp (pan - step) (PAN_MIN cfg) (PAN_MAX cfg), tilt)
            else if cmd = ''pan_right'' then (clamp (pan + step) (PAN_MIN cfg) (PAN_MAX cfg), tilt)
            else if cmd = ''tilt_up'' then (pan, clamp (tilt - step) (TILT_MIN cfg) (TILT_MAX cfg))
            else if cmd = ''tilt_down'' then (pan, clamp (tilt + step) (TILT_MIN cfg) (TILT_MAX cfg))
            else (pan, tilt));
           s1 = s\<lparr>pan_angle := pan, tilt_angle := tilt\<rparr>;
           s2 = guarded_set_servo_angle PAN_PORT (with_offset cfg PAN_PORT pan) s1;
           s3 = guarded_set_servo_angle TILT_PORT (with_offset cfg TILT_PORT tilt) s2
         in (s3, pan, tilt)))"

subsection \<open>Effect threads\<close>

text \<open>
  The body of a spawned thread is a list of statements, run from the left. \<open>For\<close>
  holds the bodies of the iterations still to run of a loop whose body starts with
  \<^verbatim>\<open>if STOP_ALL: break\<close>; \<open>Spawn\<close> starts another thread; \<open>Servo_write\<close> is one call
  of \<^verbatim>\<open>state.ctrl.servo.set_servo_angle\<close>, made outside the lock by \<^verbatim>\<open>pt_to\<close>;
  \<open>Clear_preset\<close> is the \<^verbatim>\<open>finally\<close> block of \<^verbatim>\<open>run_preset._run\<close>.
\<close>

datatype stmt =
    Sleep
  | Buzzer_state bool
  | Led_solid int int int
  | Led_scaled int int int nat
  | Led_hsv nat nat
  | Led_off
  | Set_cmd string
  | Pt_to "int option" "int option"
  | Servo_write int int
  | Spawn "stmt list"
  | For "stmt list list"
  | Clear_preset

definition buzzer_pulse :: "stmt list" where
  "buzzer_pulse = [Buzzer_state True, Sleep, Buzzer_state False]"

definition led_blink :: "int \<Rightarrow> int \<Rightarrow> int \<Rightarrow> nat \<Rightarrow> stmt list" where
  "led_blink r g b ntimes =
     [For (replicate ntimes [Led_solid r g b, Sleep, Led_off, Sleep])]"

definition led_breathe :: "int \<Rightarrow> int \<Rightarrow> int \<Rightarrow> nat \<Rightarrow> stmt list" where
  "led_breathe r g b cycles =
     [For (replicate cycles
        [For (map (\<lambda>lvl. [Led_scaled r g b lvl, Sleep]) ([0..<21] @ rev [0..<21]))]),
      Led_off]"

definition led_police :: "nat \<Rightarrow> stmt list" where
  "led_police cycles =
     [For (replicate cycles
        [Led_solid 255 0 0, Sleep, Led_off, Sleep, Led_solid 0 0 255, Sleep, Led_off, Sleep]),
      Led_off]"

text \<open>The outer loop of \<^verbatim>\<open>led_rainbow\<close> has no test of its own; only the inner one has.\<close>

definition led_rainbow :: "nat \<Rightarrow> nat \<Rightarrow> stmt list" where
  "led_rainbow cycles steps =
     concat (replicate cycles [For (map (\<lambda>k. [Led_hsv k steps, Sleep]) [0..<steps])])
     @ [Led_off]"

text \<open>
  \<^verbatim>\<open>led_set\<close> as a piece of thread body: \<^verbatim>\<open>off\<close> and \<^verbatim>\<open>solid\<close> act in the calling
  thread, the other modes start a thread with the default arguments.
\<close>

definition led_set :: "string \<Rightarrow> int \<Rightarrow> int \<Rightarrow> int \<Rightarrow> stmt" where
  "led_set mode r g b =
     (if mode = ''off'' then Led_off
      else if mode = ''solid'' then Led_solid r g b
      else if mode = ''blink'' then Spawn (led_blink r g b 3)
      else if mode = ''breathe'' then Spawn (led_breathe r g b 2)
      else if mode = ''police'' then Spawn (led_police 6)
      else if mode = ''rainbow'' then Spawn (led_rainbow 1 60)
      else Led_solid r g b)"

definition demo1_iteration :: "nat \<Rightarrow> stmt list" where
  "demo1_iteration step =
     [Set_cmd ''fwd'', Sleep, Pt_to (Some 60) None, Sleep, Pt_to (Some 120) None, Sleep]
     @ (if step = 1 \<or> step = 3 then [Spawn buzzer_pulse] else [])"

definition demo2_iteration :: "stmt list" where
  "demo2_iteration =
     [Set_cmd ''turn_left'', Sleep,
      For (map (\<lambda>p. [Pt_to (Some p) None, Sleep]) [60, 120, 90]),
      Spawn buzzer_pulse]"

definition preset_body :: "string \<Rightarrow> stmt list" where
  "preset_body name =
     [Spawn buzzer_pulse, Sleep]
     @ (if name = ''demo1'' then
          [led_set ''solid'' 0 200 255, Set_cmd ''raise'', Sleep,
           For (map demo1_iteration [0..<4]),
           Pt_to (Some 90) (Some 90), Set_cmd ''reset'', Sleep,
           Spawn (led_breathe 0 200 255 1)]
        else if name = ''demo2'' then
          [led_set ''solid'' 255 50 50, Set_cmd ''tabletop'', Sleep,
           For (replicate 3 demo2_iteration),
           Set_cmd ''reset'', Sleep,
           Spawn (led_breathe 255 50 50 1)]
        else if name = ''demo3'' then
          [led_set ''rainbow'' 255 255 255, Set_cmd ''raise'', Sleep,
           For (map (\<lambda>cmd. [Set_cmd cmd, Sleep])
                  [''fwd'', ''right'', ''back'', ''left'', ''turn_left'', ''turn_right'']),
           For (replicate 3 [Spawn buzzer_pulse, Sleep]),
           Set_cmd ''reset'', Sleep,
           Led_off]
        else [])
     @ [Clear_preset]"

text \<open>
  One statement of a thread: the rest of the thread, the new state, and the threads it
  started. The two servo writes of \<^verbatim>\<open>pt_to\<close> carry the angles read inside its lock.
\<close>

fun thread_step :: "config \<Rightarrow> stmt list \<Rightarrow> webstate \<Rightarrow> stmt list \<times> webstate \<times> stmt list list" where
  "thread_step cfg [] s = ([], s, [])"
| "thread_step cfg (Sleep # k) s = (k, s, [])"
| "thread_step cfg (Buzzer_state b # k) s = (k, call (Buzzer_set_state b) s, [])"
| "thread_step cfg (Led_solid r g b # k) s = (k, call (Color_wipe r g b) s, [])"
| "thread_step cfg (Led_scaled r g b lvl # k) s = (k, call (Color_wipe_scaled r g b lvl) s, [])"
| "thread_step cfg (Led_hsv i steps # k) s = (k, call (Color_wipe_hsv i steps) s, [])"
| "thread_step cfg (Led_off # k) s = (k, call (Color_wipe 0 0 0) s, [])"
| "thread_step cfg (Set_cmd cmd # k) s = (k, s\<lparr>current_cmd := Some cmd\<rparr>, [])"
| "thread_step cfg (Pt_to pan tilt # k) s =
     (let s1 = (case pan of None \<Rightarrow> s
                | Some v \<Rightarrow> s\<lparr>pan_angle := clamp v (PAN_MIN cfg) (PAN_MAX cfg)\<rparr>);
          s2 = (case tilt of None \<Rightarrow> s1
                | Some v \<Rightarrow> s1\<lparr>tilt_angle := clamp v (TILT_MIN cfg) (TILT_MAX cfg)\<rparr>);
          p = pan_angle s2;
          t = tilt_angle s2
      in (Servo_write PAN_PORT (with_offset cfg PAN_PORT p)
            # Servo_write TILT_PORT (with_offset cfg TILT_PORT t) # k,
          s2, []))"
| "thread_step cfg (Servo_write channel angle # k) s =
     (k, guarded_set_servo_angle channel angle s, [])"
| "thread_step cfg (Spawn body # k) s = (k, s, [body])"
| "thread_step cfg (For [] # k) s = (k, s, [])"
| "thread_step cfg (For (body # rest) # k) s =
     (if STOP_ALL s then (k, s, []) else (body @ For rest # k, s, []))"
| "thread_step cfg (Clear_preset # k) s = (k, s\<lparr>active_preset := None\<rparr>, [])"

definition run_preset :: "string \<Rightarrow> webstate \<Rightarrow> webstate \<times> stmt list list" where
  "run_preset name s =
     (s\<lparr>active_preset := Some name, STOP_ALL := False\<rparr>, [preset_body name])"

definition preset_route :: "string \<Rightarrow> webstate \<Rightarrow> (webstate \<times> stmt list list) \<times> string \<times> nat" where
  "preset_route name s =
     (if name \<noteq> ''demo1'' \<and> name \<noteq> ''demo2'' \<and> name \<noteq> ''demo3''
      then ((s, []), ''Unknown preset'', 400)
      else (run_preset name s, ''Running '' @ name, 200))"

definition buzzer_route :: "string \<Rightarrow> webstate \<Rightarrow> (webstate \<times> stmt list list) \<times> string" where
  "buzzer_route mode s =
     (if mode = ''pulse'' then ((s, [buzzer_pulse]), ''Beep pulse triggered'')
      else if mode = ''on'' then ((call (Buzzer_set_state True) s, []), ''Buzzer on'')
      else if mode = ''off'' then ((call (Buzzer_set_state False) s, []), ''Buzzer off'')
      else ((s, []), ''Unknown buzzer mode''))"

text \<open>\<^verbatim>\<open>led_route\<close> runs \<^verbatim>\<open>led_set\<close> in the request's own thread.\<close>

definition led_route :: "config \<Rightarrow> string \<Rightarrow> int \<Rightarrow> int \<Rightarrow> int \<Rightarrow> webstate \<Rightarrow> webstate \<times> stmt list list" where
  "led_route cfg mode r g b s =
     (case thread_step cfg [led_set mode r g b] s of (k, s', spawned) \<Rightarrow> (s', spawned))"

text \<open>\<^verbatim>\<open>sensors_route\<close> reads the two sensors and leaves the state as it is.\<close>

definition sensors_route :: "webstate \<Rightarrow> webstate" where
  "sensors_route s = call Get_distance (call Read_battery_voltage s)"

subsection \<open>The whole system\<close>

text \<open>
  The shared state, the worker's position and the bodies left of the live effect
  threads. An event is one request handled to its end, one step of the worker, or one
  statement of the effect thread with the given index.
\<close>

record system =
  shared :: webstate
  worker :: wpc
  threads :: "stmt list list"

datatype event =
    Cmd string
  | Stopall
  | Pt string int
  | Sensors
  | Buzzer string
  | Led string int int int
  | Preset string
  | Worker_step
  | Thread_step nat

definition init_system :: "config \<Rightarrow> system" where
  "init_system cfg = \<lparr>shared = init_state cfg, worker = W_test, threads = []\<rparr>"

fun step :: "config \<Rightarrow> (hwcall \<Rightarrow> bool) \<Rightarrow> system \<Rightarrow> event \<Rightarrow> system" where
  "step cfg fails sys (Cmd key) = sys\<lparr>shared := fst (cmd_route key (shared sys))\<rparr>"
| "step cfg fails sys Stopall = sys\<lparr>shared := fst (stopall_route fails (shared sys))\<rparr>"
| "step cfg fails sys (Pt cmd n) = sys\<lparr>shared := fst (handle_pan_tilt cfg cmd n (shared sys))\<rparr>"
| "step cfg fails sys Sensors = sys\<lparr>shared := sensors_route (shared sys)\<rparr>"
| "step cfg fails sys (Buzzer mode) =
     (case fst (buzzer_route mode (shared sys)) of
        (s', spawned) \<Rightarrow> sys\<lparr>shared := s', threads := threads sys @ spawned\<rparr>)"
| "step cfg fails sys (Led mode r g b) =
     (case led_route cfg mode r g b (shared sys) of
        (s', spawned) \<Rightarrow> sys\<lparr>shared := s', threads := threads sys @ spawned\<rparr>)"
| "step cfg fails sys (Preset name) =
     (case fst (preset_route name (shared sys)) of
        (s', spawned) \<Rightarrow> sys\<lparr>shared := s', threads := threads sys @ spawned\<rparr>)"
| "step cfg fails sys Worker_step =
     (case worker_step fails (worker sys, shared sys) of
        (pc, s') \<Rightarrow> sys\<lparr>shared := s', worker := pc\<rparr>)"
| "step cfg fails sys (Thread_step i) =
     (if i < length (threads sys) then
        (case thread_step cfg (threads sys ! i) (shared sys) of
           (k, s', spawned) \<Rightarrow>
             sys\<lparr>shared := s', threads := (threads sys)[i := k] @ spawned\<rparr>)
      else sys)"

definition run :: "config \<Rightarrow> (hwcall \<Rightarrow> bool) \<Rightarrow> system \<Rightarrow> event list \<Rightarrow> system" where
  "run cfg fails sys evs = foldl (step cfg fails) sys evs"

subsection \<open>Auxiliary definitions for the properties\<close>

text \<open>
  \<open>sent_angles\<close> lists the angles of the \<^verbatim>\<open>set_servo_angle\<close> calls that reached the
  hardware; \<open>stmt_ok\<close> says that every servo write still waiting in a thread body
  carries an angle between 0 and 180.
\<close>

primrec stmt_ok :: "stmt \<Rightarrow> bool" where
  "stmt_ok Sleep = True"
| "stmt_ok (Buzzer_state b) = True"
| "stmt_ok (Led_solid r g b) = True"
| "stmt_ok (Led_scaled r g b lvl) = True"
| "stmt_ok (Led_hsv i n) = True"
| "stmt_ok Led_off = True"
| "stmt_ok (Set_cmd c) = True"
| "stmt_ok (Pt_to p t) = True"
| "stmt_ok (Servo_write ch a) = (0 \<le> a \<and> a \<le> 180)"
| "stmt_ok (Spawn body) = list_all stmt_ok body"
| "stmt_ok (For bodies) = list_all (list_all stmt_ok) bodies"
| "stmt_ok Clear_preset = True"

fun sent_angles :: "hwcall list \<Rightarrow> int list" where
  "sent_angles [] = []"
| "sent_angles (Set_servo_angle ch a # cs) = a # sent_angles cs"
| "sent_angles (c # cs) = sent_angles cs"

definition angles_ok :: "hwcall list \<Rightarrow> bool" where
  "angles_ok cs = list_all (\<lambda>a. 0 \<le> a \<and> a \<le> 180) (sent_angles cs)"

definition sys_angles_ok :: "system \<Rightarrow> bool" where
  "sys_angles_ok sys = (angles_ok (hw (shared sys)) \<and> list_all (list_all stmt_ok) (threads sys))"


text \<open>A failure pattern for the examples: every \<^verbatim>\<open>run_gait\<close> call raises.\<close>

definition gait_fails :: "hwcall \<Rightarrow> bool" where
  "gait_fails c = (case c of Run_gait data \<Rightarrow> True | _ \<Rightarrow> False)"

text \<open>The \<^verbatim>\<open>set_servo_angle\<close> calls of a log, with port and angle.\<close>

fun servo_writes :: "hwcall list \<Rightarrow> (int \<times> int) list" where
  "servo_writes [] = []"
| "servo_writes (Set_servo_angle ch a # cs) = (ch, a) # servo_writes cs"
| "servo_writes (c # cs) = servo_writes cs"

text \<open>A limits file that does not contain the centre position 90 in its pan range.\<close>

definition narrow_config :: config where
  "narrow_config =
     \<lparr>PAN_MIN = 100, PAN_MAX = 180, TILT_MIN = 0, TILT_MAX = 180, OFFSETS = Map.empty\<rparr>"

text \<open>The bounds on the body height and on the pan and tilt angles.\<close>

definition bounds_ok :: "config \<Rightarrow> webstate \<Rightarrow> bool" where
  "bounds_ok cfg s =
     (MIN_Z \<le> body_z s \<and> body_z s \<le> MAX_Z \<and>
      PAN_MIN cfg \<le> pan_angle s \<and> pan_angle s \<le> PAN_MAX cfg \<and>
      TILT_MIN cfg \<le> tilt_angle s \<and> tilt_angle s \<le> TILT_MAX cfg)"

text \<open>
  An effect thread running alone for \<open>n\<close> statements: what is left of its body, the
  state, and the threads it has started.
\<close>

fun thread_run ::
  "config \<Rightarrow> nat \<Rightarrow> stmt list \<times> webstate \<times> stmt list list \<Rightarrow> stmt list \<times> webstate \<times> stmt list list" where
  "thread_run cfg 0 c = c"
| "thread_run cfg (Suc n) (k, s, sp) =
     (case thread_step cfg k s of (k', s', new) \<Rightarrow> thread_run cfg n (k', s', sp @ new))"

text \<open>A failure pattern for the examples: every \<^verbatim>\<open>relax()\<close> call raises.\<close>

definition relax_fails :: "hwcall \<Rightarrow> bool" where
  "relax_fails c = (case c of Relax \<Rightarrow> True | _ \<Rightarrow> False)"

text \<open>A failure pattern for the examples: every \<^verbatim>\<open>move_position\<close> call raises.\<close>

definition pose_fails :: "hwcall \<Rightarrow> bool" where
  "pose_fails c = (case c of Move_position x y z \<Rightarrow> True | _ \<Rightarrow> False)"

section \<open>Properties\<close>

subsection \<open>Basic facts\<close>

lemma call_fields:
  "STOP_ALL (call c s) = STOP_ALL s" "current_cmd (call c s) = current_cmd s"
  "active_preset (call c s) = active_preset s" "thread_running (call c s) = thread_running s"
  "body_z (call c s) = body_z s" "pan_angle (call c s) = pan_angle s"
  "tilt_angle (call c s) = tilt_angle s"
  by (simp_all add: call_def)

lemma stopall_route_fields:
  "STOP_ALL (fst (stopall_route fails s))"
  "hw (fst (stopall_route fails s)) = hw s @ [Relax]"
  "thread_running (fst (stopall_route fails s)) = thread_running s"
  "\<not> fails Relax \<Longrightarrow> current_cmd (fst (stopall_route fails s)) = None"
  "\<not> fails Relax \<Longrightarrow> active_preset (fst (stopall_route fails s)) = None"
  by (simp_all add: stopall_route_def call_def Let_def)

lemma no_failure_simp: "\<not> no_failure c"
  by (simp add: no_failure_def)

subsection \<open>Angles sent to the servos\<close>

lemma with_offset_range: "0 \<le> with_offset cfg port angle \<and> with_offset cfg port angle \<le> 180"
  by (simp add: with_offset_def Let_def)

lemma sent_angles_append: "sent_angles (xs @ ys) = sent_angles xs @ sent_angles ys"
  by (induction xs rule: sent_angles.induct) simp_all

lemma angles_ok_call:
  "angles_ok (hw (call c s)) = (angles_ok (hw s) \<and> angles_ok [c])"
  by (simp add: angles_ok_def call_def sent_angles_append)

lemma angles_ok_single:
  "angles_ok [c] = (case c of Set_servo_angle ch a \<Rightarrow> 0 \<le> a \<and> a \<le> 180 | _ \<Rightarrow> True)"
  by (cases c) (simp_all add: angles_ok_def)

lemma angles_ok_guarded:
  "angles_ok (hw s) \<Longrightarrow> 0 \<le> a \<and> a \<le> 180 \<Longrightarrow> angles_ok (hw (guarded_set_servo_angle ch a s))"
  by (simp add: guarded_set_servo_angle_def angles_ok_call angles_ok_single)

lemma programs_ok:
  "list_all stmt_ok buzzer_pulse"
  "list_all stmt_ok (led_blink r g b n)"
  "list_all stmt_ok (led_breathe r g b n)"
  "list_all stmt_ok (led_police n)"
  "list_all stmt_ok (led_rainbow n m)"
  by (simp_all add: buzzer_pulse_def led_blink_def led_breathe_def led_police_def
        led_rainbow_def list_all_iff)

lemma led_set_ok: "stmt_ok (led_set mode r g b)"
  by (simp add: led_set_def programs_ok)

lemma demo1_iteration_ok: "list_all stmt_ok (demo1_iteration i)"
  by (simp add: demo1_iteration_def programs_ok)

lemma demo2_iteration_ok: "list_all stmt_ok demo2_iteration"
  by (simp add: demo2_iteration_def programs_ok)

lemma iterations_ok:
  "list_all (list_all stmt_ok) (map demo1_iteration xs)"
  "list_all (list_all stmt_ok) (replicate n demo2_iteration)"
  "list_all (list_all stmt_ok) (replicate n [Spawn buzzer_pulse, Sleep])"
  using demo1_iteration_ok demo2_iteration_ok programs_ok(1)
  by (simp_all add: list_all_iff)

lemma preset_body_ok: "list_all stmt_ok (preset_body name)"
  by (simp add: preset_body_def programs_ok led_set_ok iterations_ok)

lemma thread_step_ok:
  assumes "list_all stmt_ok k" "angles_ok (hw s)" "thread_step cfg k s = (k', s', sp)"
  shows "list_all stmt_ok k' \<and> angles_ok (hw s') \<and> list_all (list_all stmt_ok) sp"
  using assms
proof (induction cfg k s rule: thread_step.induct)
  case (9 cfg pan tilt k s)
  then show ?case
    by (auto simp: Let_def with_offset_range split: option.splits)
next
  case (10 cfg channel angle k s)
  then show ?case by (auto simp: angles_ok_guarded)
qed (auto simp: angles_ok_call angles_ok_single split: if_splits)

lemma worker_call_ok:
  "angles_ok (hw s) \<Longrightarrow> angles_ok [c] \<Longrightarrow> angles_ok (hw (snd (worker_call fails c pc s)))"
  by (simp add: worker_call_def angles_ok_call)

lemma worker_step_ok:
  "angles_ok (hw s) \<Longrightarrow> angles_ok (hw (snd (worker_step fails (pc, s))))"
  by (cases pc) (auto simp: Let_def worker_call_ok angles_ok_call angles_ok_single split: option.splits)

lemma handle_pan_tilt_ok:
  "angles_ok (hw s) \<Longrightarrow> angles_ok (hw (fst (handle_pan_tilt cfg cmd n s)))"
  by (simp add: handle_pan_tilt_def Let_def angles_ok_call angles_ok_guarded with_offset_range
        angles_ok_single split: prod.splits)

lemma step_angles_ok:
  assumes "sys_angles_ok sys"
  shows "sys_angles_ok (step cfg fails sys e)"
proof (cases e)
  case (Cmd key)
  with assms show ?thesis
    by (simp add: sys_angles_ok_def cmd_route_def Let_def split: prod.splits option.splits)
next
  case Stopall
  with assms show ?thesis
    by (simp add: sys_angles_ok_def stopall_route_def Let_def angles_ok_call angles_ok_single)
next
  case (Pt cmd n)
  with assms show ?thesis
    by (simp add: sys_angles_ok_def handle_pan_tilt_ok)
next
  case Sensors
  with assms show ?thesis
    by (simp add: sys_angles_ok_def sensors_route_def angles_ok_call angles_ok_single)
next
  case (Buzzer mode)
  with assms show ?thesis
    by (auto simp: sys_angles_ok_def buzzer_route_def angles_ok_call angles_ok_single programs_ok)
next
  case (Led mode r g b)
  obtain k s' sp where ts: "thread_step cfg [led_set mode r g b] (shared sys) = (k, s', sp)"
    by (cases "thread_step cfg [led_set mode r g b] (shared sys)") auto
  from assms have "list_all stmt_ok [led_set mode r g b]" "angles_ok (hw (shared sys))"
    by (simp_all add: led_set_ok sys_angles_ok_def)
  from thread_step_ok[OF this ts] assms Led ts show ?thesis
    by (simp add: sys_angles_ok_def led_route_def)
next
  case (Preset name)
  with assms show ?thesis
    by (auto simp: sys_angles_ok_def preset_route_def run_preset_def preset_body_ok)
next
  case Worker_step
  obtain pc s' where ws: "worker_step fails (worker sys, shared sys) = (pc, s')"
    by (cases "worker_step fails (worker sys, shared sys)") auto
  from assms have "angles_ok (hw (shared sys))" by (simp add: sys_angles_ok_def)
  from worker_step_ok[OF this, of fails "worker sys"] ws assms Worker_step show ?thesis
    by (simp add: sys_angles_ok_def)
next
  case (Thread_step i)
  show ?thesis
  proof (cases "i < length (threads sys)")
    case False
    with assms Thread_step show ?thesis by simp
  next
    case True
    obtain k s' sp where ts: "thread_step cfg (threads sys ! i) (shared sys) = (k, s', sp)"
      by (cases "thread_step cfg (threads sys ! i) (shared sys)") auto
    from assms True have "list_all stmt_ok (threads sys ! i)" "angles_ok (hw (shared sys))"
      by (simp_all add: sys_angles_ok_def list_all_length)
    from thread_step_ok[OF this ts] have
      "list_all stmt_ok k" "angles_ok (hw s')" "list_all (list_all stmt_ok) sp" by simp_all
    moreover from assms have "list_all (list_all stmt_ok) (threads sys)"
      by (simp add: sys_angles_ok_def)
    ultimately show ?thesis using Thread_step True ts
      by (auto simp: sys_angles_ok_def list_all_iff dest!: set_update_subset_insert[THEN subsetD])
  qed
qed

lemma run_angles_ok: "sys_angles_ok sys \<Longrightarrow> sys_angles_ok (run cfg fails sys evs)"
  unfolding run_def by (induction evs arbitrary: sys) (simp_all add: step_angles_ok)

lemma init_angles_ok: "sys_angles_ok (init_system cfg)"
  by (simp add: sys_angles_ok_def init_system_def init_state_def angles_ok_def with_offset_range)

text \<open>
  C10: \<^verbatim>\<open>with_offset\<close> returns a value between 0 and 180 for every port, every offset
  table and every integer angle, and every angle that \<^verbatim>\<open>set_servo_angle\<close> receives from
  this program, in any run from the initial state, is between 0 and 180. (The writes
  that the external gait engine makes inside \<^verbatim>\<open>run_gait\<close> and \<^verbatim>\<open>move_position\<close> are
  not part of this program.)
\<close>

theorem servo_angle_always_in_range:
  "0 \<le> with_offset cfg port angle \<and> with_offset cfg port angle \<le> 180 \<and>
   list_all (\<lambda>a. 0 \<le> a \<and> a \<le> 180)
     (sent_angles (hw (shared (run cfg fails (init_system cfg) evs))))"
proof -
  have "sys_angles_ok (run cfg fails (init_system cfg) evs)"
    by (rule run_angles_ok) (rule init_angles_ok)
  then show ?thesis
    by (simp add: with_offset_range sys_angles_ok_def angles_ok_def)
qed

subsection \<open>The worker's pass through its loop\<close>

lemma cmd_route_known:
  "map_key_to_cmd k = (Some c, m) \<Longrightarrow>
     cmd_route k s = (s\<lparr>STOP_ALL := False, current_cmd := Some c\<rparr>, m)"
  by (simp add: cmd_route_def)

lemma worker_pass_fetched:
  "thread_running s \<Longrightarrow> \<not> STOP_ALL s \<Longrightarrow> current_cmd s = Some c \<Longrightarrow>
   worker_pass fails (Suc (Suc n)) (W_test, s) = worker_pass fails n (W_exec c, s)"
  by simp

lemma worker_pass_gait:
  "worker_step fails (W_exec c, s) = (W_clear c, s') \<Longrightarrow>
   worker_pass fails (Suc (Suc n)) (W_exec c, s) = worker_step fails (W_clear c, s')"
  by simp

lemma worker_pass_pose:
  "worker_step fails (W_exec c, s) = (W_move c z, s') \<Longrightarrow> \<not> fails (Move_position 0 0 z) \<Longrightarrow>
   worker_pass fails (Suc (Suc (Suc n))) (W_exec c, s)
     = worker_step fails (W_clear c, call (Move_position 0 0 z) s')"
  by (simp add: worker_call_def)

lemma five_Suc: "(5::nat) = Suc (Suc (Suc (Suc (Suc 0))))"
  by simp

lemma tick_gait:
  assumes "thread_running s" "\<not> STOP_ALL s" "current_cmd s = Some c"
    and "worker_step fails (W_exec c, s) = (W_clear c, call a s)"
  shows "worker_tick fails s = (W_test, (call a s)\<lparr>current_cmd := None\<rparr>)"
proof -
  have "worker_tick fails s = worker_pass fails (Suc (Suc (Suc 0))) (W_exec c, s)"
    unfolding worker_tick_def five_Suc by (rule worker_pass_fetched) fact+
  also have "\<dots> = worker_step fails (W_clear c, call a s)"
    by (rule worker_pass_gait) fact
  also have "\<dots> = (W_test, (call a s)\<lparr>current_cmd := None\<rparr>)"
    using assms(3) by (simp add: call_def)
  finally show ?thesis .
qed

lemma tick_pose:
  assumes "thread_running s" "\<not> STOP_ALL s" "current_cmd s = Some c"
    and "worker_step fails (W_exec c, s) = (W_move c z, s\<lparr>body_z := z\<rparr>)"
    and "\<not> fails (Move_position 0 0 z)"
  shows "worker_tick fails s
     = (W_test, (call (Move_position 0 0 z) (s\<lparr>body_z := z\<rparr>))\<lparr>current_cmd := None\<rparr>)"
proof -
  have "worker_tick fails s = worker_pass fails (Suc (Suc (Suc 0))) (W_exec c, s)"
    unfolding worker_tick_def five_Suc by (rule worker_pass_fetched) fact+
  also have "\<dots> = worker_step fails (W_clear c, call (Move_position 0 0 z) (s\<lparr>body_z := z\<rparr>))"
    by (rule worker_pass_pose) fact+
  also have "\<dots> = (W_test, (call (Move_position 0 0 z) (s\<lparr>body_z := z\<rparr>))\<lparr>current_cmd := None\<rparr>)"
    using assms(3) by (simp add: call_def)
  finally show ?thesis .
qed

subsection \<open>Latest command wins\<close>

lemma tick_gait_call:
  assumes "thread_running t" "\<not> STOP_ALL t" "current_cmd t = Some c"
    and "worker_step fails (W_exec c, t) = (W_clear c, call a t)"
  shows "worker_tick fails t = (W_test, t\<lparr>hw := hw t @ [a], current_cmd := None\<rparr>)"
  using tick_gait[OF assms] by (simp add: call_def)

lemma tick_pose_call:
  assumes "thread_running t" "\<not> STOP_ALL t" "current_cmd t = Some c"
    and "worker_step fails (W_exec c, t) = (W_move c z, t\<lparr>body_z := z\<rparr>)"
    and "\<not> fails (Move_position 0 0 z)"
  shows "worker_tick fails t
     = (W_test, t\<lparr>body_z := z, hw := hw t @ [Move_position 0 0 z], current_cmd := None\<rparr>)"
  using tick_pose[OF assms] by (simp add: call_def)

lemma pass_clear_other:
  "current_cmd t = Some c \<Longrightarrow> c \<noteq> c0 \<Longrightarrow> worker_pass fails (Suc n) (W_clear c0, t) = (W_test, t)"
  by simp

lemma pass_move_other:
  "current_cmd t = Some c \<Longrightarrow> c \<noteq> c0 \<Longrightarrow>
     worker_pass no_failure (Suc (Suc n)) (W_move c0 z, t) = (W_test, call (Move_position 0 0 z) t)"
  by (simp add: worker_call_def no_failure_def call_fields)

lemma exec_shape:
  "(fst (worker_step no_failure (W_exec c0, t)) = W_clear c0 \<or>
    fst (worker_step no_failure (W_exec c0, t))
      = W_move c0 (body_z (snd (worker_step no_failure (W_exec c0, t))))) \<and>
   current_cmd (snd (worker_step no_failure (W_exec c0, t))) = current_cmd t \<and>
   STOP_ALL (snd (worker_step no_failure (W_exec c0, t))) = STOP_ALL t \<and>
   thread_running (snd (worker_step no_failure (W_exec c0, t))) = thread_running t"
  by (simp add: worker_call_def no_failure_def Let_def call_fields)

lemma pass_exec_other:
  assumes "current_cmd t = Some c" "c \<noteq> c0"
  shows "fst (worker_pass no_failure 3 (W_exec c0, t)) = W_test \<and>
         current_cmd (snd (worker_pass no_failure 3 (W_exec c0, t))) = Some c \<and>
         STOP_ALL (snd (worker_pass no_failure 3 (W_exec c0, t))) = STOP_ALL t \<and>
         thread_running (snd (worker_pass no_failure 3 (W_exec c0, t))) = thread_running t"
proof -
  have three: "(3::nat) = Suc (Suc (Suc 0))" by simp
  obtain pc' t' where e: "worker_step no_failure (W_exec c0, t) = (pc', t')"
    by (cases "worker_step no_failure (W_exec c0, t)") auto
  with exec_shape[of c0 t] assms have
    pc': "pc' = W_clear c0 \<or> pc' = W_move c0 (body_z t')"
    and t': "current_cmd t' = Some c" "STOP_ALL t' = STOP_ALL t" "thread_running t' = thread_running t"
    by simp_all
  from pc' show ?thesis
  proof
    assume p: "pc' = W_clear c0"
    have "worker_pass no_failure 3 (W_exec c0, t) = worker_pass no_failure (Suc (Suc 0)) (W_clear c0, t')"
      unfolding three using e p by simp
    also have "\<dots> = (W_test, t')"
      by (rule pass_clear_other[OF t'(1) assms(2)])
    finally show ?thesis by (simp add: t')
  next
    assume p: "pc' = W_move c0 (body_z t')"
    have "worker_pass no_failure 3 (W_exec c0, t)
        = worker_pass no_failure (Suc (Suc 0)) (W_move c0 (body_z t'), t')"
      unfolding three using e p by simp
    also have "\<dots> = (W_test, call (Move_position 0 0 (body_z t')) t')"
      by (rule pass_move_other[OF t'(1) assms(2)])
    finally show ?thesis by (simp add: call_fields t')
  qed
qed

lemma pass_other:
  assumes "current_cmd t = Some c" "c \<noteq> c0"
    and "pc = W_exec c0 \<or> pc = W_move c0 z \<or> pc = W_clear c0"
  shows "fst (worker_pass no_failure 3 (pc, t)) = W_test \<and>
         current_cmd (snd (worker_pass no_failure 3 (pc, t))) = Some c \<and>
         STOP_ALL (snd (worker_pass no_failure 3 (pc, t))) = STOP_ALL t \<and>
         thread_running (snd (worker_pass no_failure 3 (pc, t))) = thread_running t"
proof -
  have three: "(3::nat) = Suc (Suc (Suc 0))" by simp
  from assms(3) show ?thesis
  proof (elim disjE)
    assume "pc = W_exec c0"
    with pass_exec_other[OF assms(1,2)] show ?thesis by simp
  next
    assume "pc = W_move c0 z"
    with pass_move_other[OF assms(1,2), of "Suc 0" z] show ?thesis
      unfolding three by (simp add: call_fields assms)
  next
    assume "pc = W_clear c0"
    with pass_clear_other[OF assms(1,2), of no_failure "Suc (Suc 0)"] show ?thesis
      unfolding three by (simp add: assms)
  qed
qed

lemma tick_fwd:
  assumes "thread_running t" "\<not> STOP_ALL t" "current_cmd t = Some ''fwd''"
    and "\<not> fails (Run_gait [''CMD_MOVE'', ''1'', ''0'', ''35'', ''10'', ''0''])"
  shows "worker_tick fails t =
     (W_test, t\<lparr>hw := hw t @ [Run_gait [''CMD_MOVE'', ''1'', ''0'', ''35'', ''10'', ''0'']], current_cmd := None\<rparr>)"
proof (rule tick_gait_call[OF assms(1-3)])
  show "worker_step fails (W_exec ''fwd'', t)
      = (W_clear ''fwd'', call (Run_gait [''CMD_MOVE'', ''1'', ''0'', ''35'', ''10'', ''0'']) t)"
    using assms(4) by (simp add: worker_call_def)
qed

lemma tick_back:
  assumes "thread_running t" "\<not> STOP_ALL t" "current_cmd t = Some ''back''"
    and "\<not> fails (Run_gait [''CMD_MOVE'', ''2'', ''0'', ''-35'', ''10'', ''10''])"
  shows "worker_tick fails t =
     (W_test, t\<lparr>hw := hw t @ [Run_gait [''CMD_MOVE'', ''2'', ''0'', ''-35'', ''10'', ''10'']], current_cmd := None\<rparr>)"
proof (rule tick_gait_call[OF assms(1-3)])
  show "worker_step fails (W_exec ''back'', t)
      = (W_clear ''back'', call (Run_gait [''CMD_MOVE'', ''2'', ''0'', ''-35'', ''10'', ''10'']) t)"
    using assms(4) by (simp add: worker_call_def)
qed

lemma tick_right:
  assumes "thread_running t" "\<not> STOP_ALL t" "current_cmd t = Some ''right''"
    and "\<not> fails (Run_gait [''CMD_MOVE'', ''1'', ''35'', ''0'', ''10'', ''0''])"
  shows "worker_tick fails t =
     (W_test, t\<lparr>hw := hw t @ [Run_gait [''CMD_MOVE'', ''1'', ''35'', ''0'', ''10'', ''0'']], current_cmd := None\<rparr>)"
proof (rule tick_gait_call[OF assms(1-3)])
  show "worker_step fails (W_exec ''right'', t)
      = (W_clear ''right'', call (Run_gait [''CMD_MOVE'', ''1'', ''35'', ''0'', ''10'', ''0'']) t)"
    using assms(4) by (simp add: worker_call_def)
qed

lemma tick_left:
  assumes "thread_running t" "\<not> STOP_ALL t" "current_cmd t = Some ''left''"
    and "\<not> fails (Run_gait [''CMD_MOVE'', ''1'', ''-35'', ''0'', ''10'', ''0''])"
  shows "worker_tick fails t =
     (W_test, t\<lparr>hw := hw t @ [Run_gait [''CMD_MOVE'', ''1'', ''-35'', ''0'', ''10'', ''0'']], current_cmd := None\<rparr>)"
proof (rule tick_gait_call[OF assms(1-3)])
  show "worker_step fails (W_exec ''left'', t)
      = (W_clear ''left'', call (Run_gait [''CMD_MOVE'', ''1'', ''-35'', ''0'', ''10'', ''0'']) t)"
    using assms(4) by (simp add: worker_call_def)
qed

lemma tick_turn_left:
  assumes "thread_running t" "\<not> STOP_ALL t" "current_cmd t = Some ''turn_left''"
    and "\<not> fails (Run_gait [''CMD_MOVE'', ''1'', ''0'', ''0'', ''10'', ''20''])"
  shows "worker_tick fails t =
     (W_test, t\<lparr>hw := hw t @ [Run_gait [''CMD_MOVE'', ''1'', ''0'', ''0'', ''10'', ''20'']], current_cmd := None\<rparr>)"
proof (rule tick_gait_call[OF assms(1-3)])
  show "worker_step fails (W_exec ''turn_left'', t)
      = (W_clear ''turn_left'', call (Run_gait [''CMD_MOVE'', ''1'', ''0'', ''0'', ''10'', ''20'']) t)"
    using assms(4) by (simp add: worker_call_def)
qed

lemma tick_turn_right:
  assumes "thread_running t" "\<not> STOP_ALL t" "current_cmd t = Some ''turn_right''"
    and "\<not> fails (Run_gait [''CMD_MOVE'', ''1'', ''0'', ''0'', ''10'', ''-20''])"
  shows "worker_tick fails t =
     (W_test, t\<lparr>hw := hw t @ [Run_gait [''CMD_MOVE'', ''1'', ''0'', ''0'', ''10'', ''-20'']], current_cmd := None\<rparr>)"
proof (rule tick_gait_call[OF assms(1-3)])
  show "worker_step fails (W_exec ''turn_right'', t)
      = (W_clear ''turn_right'', call (Run_gait [''CMD_MOVE'', ''1'', ''0'', ''0'', ''10'', ''-20'']) t)"
    using assms(4) by (simp add: worker_call_def)
qed

lemma tick_raise:
  assumes "thread_running t" "\<not> STOP_ALL t" "current_cmd t = Some ''raise''"
    and "\<not> fails (Move_position 0 0 (clamp (body_z t + 2) MIN_Z MAX_Z))"
  shows "worker_tick fails t =
     (W_test, t\<lparr>body_z := clamp (body_z t + 2) MIN_Z MAX_Z,
                 hw := hw t @ [Move_position 0 0 (clamp (body_z t + 2) MIN_Z MAX_Z)], current_cmd := None\<rparr>)"
proof -
  have "worker_step fails (W_exec ''raise'', t)
      = (W_move ''raise'' (clamp (body_z t + 2) MIN_Z MAX_Z), t\<lparr>body_z := clamp (body_z t + 2) MIN_Z MAX_Z\<rparr>)"
    by (simp add: Let_def)
  from tick_pose_call[where t = t and c = "''raise''" and fails = fails
      and z = "clamp (body_z t + 2) MIN_Z MAX_Z", OF assms(1-3) this assms(4)]
  show ?thesis .
qed

lemma tick_lower:
  assumes "thread_running t" "\<not> STOP_ALL t" "current_cmd t = Some ''lower''"
    and "\<not> fails (Move_position 0 0 (clamp (body_z t - 2) MIN_Z MAX_Z))"
  shows "worker_tick fails t =
     (W_test, t\<lparr>body_z := clamp (body_z t - 2) MIN_Z MAX_Z,
                 hw := hw t @ [Move_position 0 0 (clamp (body_z t - 2) MIN_Z MAX_Z)], current_cmd := None\<rparr>)"
proof -
  have "worker_step fails (W_exec ''lower'', t)
      = (W_move ''lower'' (clamp (body_z t - 2) MIN_Z MAX_Z), t\<lparr>body_z := clamp (body_z t - 2) MIN_Z MAX_Z\<rparr>)"
    by (simp add: Let_def)
  from tick_pose_call[where t = t and c = "''lower''" and fails = fails
      and z = "clamp (body_z t - 2) MIN_Z MAX_Z", OF assms(1-3) this assms(4)]
  show ?thesis .
qed

lemma tick_tabletop:
  assumes "thread_running t" "\<not> STOP_ALL t" "current_cmd t = Some ''tabletop''"
    and "\<not> fails (Move_position 0 0 (clamp TABLETOP_Z MIN_Z MAX_Z))"
  shows "worker_tick fails t =
     (W_test, t\<lparr>body_z := clamp TABLETOP_Z MIN_Z MAX_Z,
                 hw := hw t @ [Move_position 0 0 (clamp TABLETOP_Z MIN_Z MAX_Z)], current_cmd := None\<rparr>)"
proof -
  have "worker_step fails (W_exec ''tabletop'', t)
      = (W_move ''tabletop'' (clamp TABLETOP_Z MIN_Z MAX_Z), t\<lparr>body_z := clamp TABLETOP_Z MIN_Z MAX_Z\<rparr>)"
    by (simp add: Let_def)
  from tick_pose_call[where t = t and c = "''tabletop''" and fails = fails
      and z = "clamp TABLETOP_Z MIN_Z MAX_Z", OF assms(1-3) this assms(4)]
  show ?thesis .
qed

lemma tick_reset:
  assumes "thread_running t" "\<not> STOP_ALL t" "current_cmd t = Some ''reset''"
    and "\<not> fails (Move_position 0 0 (clamp RESET_Z MIN_Z MAX_Z))"
  shows "worker_tick fails t =
     (W_test, t\<lparr>body_z := clamp RESET_Z MIN_Z MAX_Z,
                 hw := hw t @ [Move_position 0 0 (clamp RESET_Z MIN_Z MAX_Z)], current_cmd := None\<rparr>)"
proof -
  have "worker_step fails (W_exec ''reset'', t)
      = (W_move ''reset'' (clamp RESET_Z MIN_Z MAX_Z), t\<lparr>body_z := clamp RESET_Z MIN_Z MAX_Z\<rparr>)"
    by (simp add: Let_def)
  from tick_pose_call[where t = t and c = "''reset''" and fails = fails
      and z = "clamp RESET_Z MIN_Z MAX_Z", OF assms(1-3) this assms(4)]
  show ?thesis .
qed

text \<open>
  C1 (as amended): two \<^verbatim>\<open>/cmd\<close> requests with known keys, one after the other, leave
  the slot holding the second command only (the first is gone; there is no queue). A
  worker pass that starts with the worker running, the flag clear and a known command
  in the slot makes exactly the one hardware call of that command (the gait
  parameters or the clamped height below), and leaves the slot empty. When the
  requests arrive while the worker is in the middle of a pass for an earlier command
  of another name, that pass ends with the later command still in the slot, flag and
  running state untouched, so the next pass runs it.
\<close>

theorem latest_command_wins:
  "(map_key_to_cmd k1 = (Some c1, m1) \<and> map_key_to_cmd k2 = (Some c2, m2) \<longrightarrow>
      fst (cmd_route k2 (fst (cmd_route k1 s))) = s\<lparr>STOP_ALL := False, current_cmd := Some c2\<rparr>) \<and>
   (thread_running t \<and> \<not> STOP_ALL t \<longrightarrow>
     (current_cmd t = Some ''fwd'' \<and> \<not> fails (Run_gait [''CMD_MOVE'', ''1'', ''0'', ''35'', ''10'', ''0'']) \<longrightarrow>
      worker_tick fails t =
     (W_test, t\<lparr>hw := hw t @ [Run_gait [''CMD_MOVE'', ''1'', ''0'', ''35'', ''10'', ''0'']], current_cmd := None\<rparr>)) \<and>
     (current_cmd t = Some ''back'' \<and> \<not> fails (Run_gait [''CMD_MOVE'', ''2'', ''0'', ''-35'', ''10'', ''10'']) \<longrightarrow>
      worker_tick fails t =
     (W_test, t\<lparr>hw := hw t @ [Run_gait [''CMD_MOVE'', ''2'', ''0'', ''-35'', ''10'', ''10'']], current_cmd := None\<rparr>)) \<and>
     (current_cmd t = Some ''right'' \<and> \<not> fails (Run_gait [''CMD_MOVE'', ''1'', ''35'', ''0'', ''10'', ''0'']) \<longrightarrow>
      worker_tick fails t =
     (W_test, t\<lparr>hw := hw t @ [Run_gait [''CMD_MOVE'', ''1'', ''35'', ''0'', ''10'', ''0'']], current_cmd := None\<rparr>)) \<and>
     (current_cmd t = Some ''left'' \<and> \<not> fails (Run_gait [''CMD_MOVE'', ''1'', ''-35'', ''0'', ''10'', ''0'']) \<longrightarrow>
      worker_tick fails t =
     (W_test, t\<lparr>hw := hw t @ [Run_gait [''CMD_MOVE'', ''1'', ''-35'', ''0'', ''10'', ''0'']], current_cmd := None\<rparr>)) \<and>
     (current_cmd t = Some ''turn_left'' \<and> \<not> fails (Run_gait [''CMD_MOVE'', ''1'', ''0'', ''0'', ''10'', ''20'']) \<longrightarrow>
      worker_tick fails t =
     (W_test, t\<lparr>hw := hw t @ [Run_gait [''CMD_MOVE'', ''1'', ''0'', ''0'', ''10'', ''20'']], current_cmd := None\<rparr>)) \<and>
     (current_cmd t = Some ''turn_right'' \<and> \<not> fails (Run_gait [''CMD_MOVE'', ''1'', ''0'', ''0'', ''10'', ''-20'']) \<longrightarrow>
      worker_tick fails t =
     (W_test, t\<lparr>hw := hw t @ [Run_gait [''CMD_MOVE'', ''1'', ''0'', ''0'', ''10'', ''-20'']], current_cmd := None\<rparr>)) \<and>
     (current_cmd t = Some ''raise'' \<and> \<not> fails (Move_position 0 0 (clamp (body_z t + 2) MIN_Z MAX_Z)) \<longrightarrow>
      worker_tick fails t =
     (W_test, t\<lparr>body_z := clamp (body_z t + 2) MIN_Z MAX_Z,
                 hw := hw t @ [Move_position 0 0 (clamp (body_z t + 2) MIN_Z MAX_Z)], current_cmd := None\<rparr>)) \<and>
     (current_cmd t = Some ''lower'' \<and> \<not> fails (Move_position 0 0 (clamp (body_z t - 2) MIN_Z MAX_Z)) \<longrightarrow>
      worker_tick fails t =
     (W_test, t\<lparr>body_z := clamp (body_z t - 2) MIN_Z MAX_Z,
                 hw := hw t @ [Move_position 0 0 (clamp (body_z t - 2) MIN_Z MAX_Z)], current_cmd := None\<rparr>)) \<and>
     (current_cmd t = Some ''tabletop'' \<and> \<not> fails (Move_position 0 0 (clamp TABLETOP_Z MIN_Z MAX_Z)) \<longrightarrow>
      worker_tick fails t =
     (W_test, t\<lparr>body_z := clamp TABLETOP_Z MIN_Z MAX_Z,
                 hw := hw t @ [Move_position 0 0 (clamp TABLETOP_Z MIN_Z MAX_Z)], current_cmd := None\<rparr>)) \<and>
     (current_cmd t = Some ''reset'' \<and> \<not> fails (Move_position 0 0 (clamp RESET_Z MIN_Z MAX_Z)) \<longrightarrow>
      worker_tick fails t =
     (W_test, t\<lparr>body_z := clamp RESET_Z MIN_Z MAX_Z,
                 hw := hw t @ [Move_position 0 0 (clamp RESET_Z MIN_Z MAX_Z)], current_cmd := None\<rparr>))) \<and>
   (current_cmd t = Some c \<and> c \<noteq> c0 \<and>
    (pc = W_exec c0 \<or> pc = W_move c0 z \<or> pc = W_clear c0) \<longrightarrow>
      fst (worker_pass no_failure 3 (pc, t)) = W_test \<and>
      current_cmd (snd (worker_pass no_failure 3 (pc, t))) = Some c \<and>
      STOP_ALL (snd (worker_pass no_failure 3 (pc, t))) = STOP_ALL t \<and>
      thread_running (snd (worker_pass no_failure 3 (pc, t))) = thread_running t)"
proof (intro conjI impI)
  assume "map_key_to_cmd k1 = (Some c1, m1) \<and> map_key_to_cmd k2 = (Some c2, m2)"
  then have k: "map_key_to_cmd k1 = (Some c1, m1)" "map_key_to_cmd k2 = (Some c2, m2)" by simp_all
  show "fst (cmd_route k2 (fst (cmd_route k1 s))) = s\<lparr>STOP_ALL := False, current_cmd := Some c2\<rparr>"
    by (simp add: cmd_route_known[OF k(1)] cmd_route_known[OF k(2)])
next
  assume "thread_running t \<and> \<not> STOP_ALL t" and "current_cmd t = Some ''fwd'' \<and> \<not> fails (Run_gait [''CMD_MOVE'', ''1'', ''0'', ''35'', ''10'', ''0''])"
  then show "worker_tick fails t =
     (W_test, t\<lparr>hw := hw t @ [Run_gait [''CMD_MOVE'', ''1'', ''0'', ''35'', ''10'', ''0'']], current_cmd := None\<rparr>)"
    by (intro tick_fwd) simp_all
next
  assume "thread_running t \<and> \<not> STOP_ALL t" and "current_cmd t = Some ''back'' \<and> \<not> fails (Run_gait [''CMD_MOVE'', ''2'', ''0'', ''-35'', ''10'', ''10''])"
  then show "worker_tick fails t =
     (W_test, t\<lparr>hw := hw t @ [Run_gait [''CMD_MOVE'', ''2'', ''0'', ''-35'', ''10'', ''10'']], current_cmd := None\<rparr>)"
    by (intro tick_back) simp_all
next
  assume "thread_running t \<and> \<not> STOP_ALL t" and "current_cmd t = Some ''right'' \<and> \<not> fails (Run_gait [''CMD_MOVE'', ''1'', ''35'', ''0'', ''10'', ''0''])"
  then show "worker_tick fails t =
     (W_test, t\<lparr>hw := hw t @ [Run_gait [''CMD_MOVE'', ''1'', ''35'', ''0'', ''10'', ''0'']], current_cmd := None\<rparr>)"
    by (intro tick_right) simp_all
next
  assume "thread_running t \<and> \<not> STOP_ALL t" and "current_cmd t = Some ''left'' \<and> \<not> fails (Run_gait [''CMD_MOVE'', ''1'', ''-35'', ''0'', ''10'', ''0''])"
  then show "worker_tick fails t =
     (W_test, t\<lparr>hw := hw t @ [Run_gait [''CMD_MOVE'', ''1'', ''-35'', ''0'', ''10'', ''0'']], current_cmd := None\<rparr>)"
    by (intro tick_left) simp_all
next
  assume "thread_running t \<and> \<not> STOP_ALL t" and "current_cmd t = Some ''turn_left'' \<and> \<not> fails (Run_gait [''CMD_MOVE'', ''1'', ''0'', ''0'', ''10'', ''20''])"
  then show "worker_tick fails t =
     (W_test, t\<lparr>hw := hw t @ [Run_gait [''CMD_MOVE'', ''1'', ''0'', ''0'', ''10'', ''20'']], current_cmd := None\<rparr>)"
    by (intro tick_turn_left) simp_all
next
  assume "thread_running t \<and> \<not> STOP_ALL t" and "current_cmd t = Some ''turn_right'' \<and> \<not> fails (Run_gait [''CMD_MOVE'', ''1'', ''0'', ''0'', ''10'', ''-20''])"
  then show "worker_tick fails t =
     (W_test, t\<lparr>hw := hw t @ [Run_gait [''CMD_MOVE'', ''1'', ''0'', ''0'', ''10'', ''-20'']], current_cmd := None\<rparr>)"
    by (intro tick_turn_right) simp_all
next
  assume "thread_running t \<and> \<not> STOP_ALL t" and "current_cmd t = Some ''raise'' \<and> \<not> fails (Move_position 0 0 (clamp (body_z t + 2) MIN_Z MAX_Z))"
  then show "worker_tick fails t =
     (W_test, t\<lparr>body_z := clamp (body_z t + 2) MIN_Z MAX_Z,
                 hw := hw t @ [Move_position 0 0 (clamp (body_z t + 2) MIN_Z MAX_Z)], current_cmd := None\<rparr>)"
    by (intro tick_raise) simp_all
next
  assume "thread_running t \<and> \<not> STOP_ALL t" and "current_cmd t = Some ''lower'' \<and> \<not> fails (Move_position 0 0 (clamp (body_z t - 2) MIN_Z MAX_Z))"
  then show "worker_tick fails t =
     (W_test, t\<lparr>body_z := clamp (body_z t - 2) MIN_Z MAX_Z,
                 hw := hw t @ [Move_position 0 0 (clamp (body_z t - 2) MIN_Z MAX_Z)], current_cmd := None\<rparr>)"
    by (intro tick_lower) simp_all
next
  assume "thread_running t \<and> \<not> STOP_ALL t" and "current_cmd t = Some ''tabletop'' \<and> \<not> fails (Move_position 0 0 (clamp TABLETOP_Z MIN_Z MAX_Z))"
  then show "worker_tick fails t =
     (W_test, t\<lparr>body_z := clamp TABLETOP_Z MIN_Z MAX_Z,
                 hw := hw t @ [Move_position 0 0 (clamp TABLETOP_Z MIN_Z MAX_Z)], current_cmd := None\<rparr>)"
    by (intro tick_tabletop) simp_all
next
  assume "thread_running t \<and> \<not> STOP_ALL t" and "current_cmd t = Some ''reset'' \<and> \<not> fails (Move_position 0 0 (clamp RESET_Z MIN_Z MAX_Z))"
  then show "worker_tick fails t =
     (W_test, t\<lparr>body_z := clamp RESET_Z MIN_Z MAX_Z,
                 hw := hw t @ [Move_position 0 0 (clamp RESET_Z MIN_Z MAX_Z)], current_cmd := None\<rparr>)"
    by (intro tick_reset) simp_all
next
  assume a: "current_cmd t = Some c \<and> c \<noteq> c0 \<and>
    (pc = W_exec c0 \<or> pc = W_move c0 z \<or> pc = W_clear c0)"
  then have b: "current_cmd t = Some c" "c \<noteq> c0"
    "pc = W_exec c0 \<or> pc = W_move c0 z \<or> pc = W_clear c0" by simp_all
  note r = pass_other[OF b]
  from r show "fst (worker_pass no_failure 3 (pc, t)) = W_test" by (rule conjunct1)
  from r show "current_cmd (snd (worker_pass no_failure 3 (pc, t))) = Some c"
    by (rule conjunct2[THEN conjunct1])
  from r show "STOP_ALL (snd (worker_pass no_failure 3 (pc, t))) = STOP_ALL t"
    by (rule conjunct2[THEN conjunct2, THEN conjunct1])
  from r show "thread_running (snd (worker_pass no_failure 3 (pc, t))) = thread_running t"
    by (rule conjunct2[THEN conjunct2, THEN conjunct2])
qed


text \<open>
  C1 as stated fails when the worker is in the middle of a pass for a command of the
  same name as the later one: the worker has run \<^verbatim>\<open>left\<close> and is before its last locked
  section when \<^verbatim>\<open>/cmd?key=w\<close> and \<^verbatim>\<open>/cmd?key=a\<close> arrive; the slot holds \<^verbatim>\<open>left\<close>, the
  worker's test \<^verbatim>\<open>state.current_cmd == cmd\<close> succeeds and empties it, and the later
  command is never run (the log has the one gait call of the earlier \<^verbatim>\<open>left\<close>).
\<close>

theorem latest_command_cleared_counterexample:
  "worker (run default_config no_failure (init_system default_config)
      [Cmd ''a'', Worker_step, Worker_step, Worker_step]) = W_clear ''left'' \<and>
   current_cmd (shared (run default_config no_failure (init_system default_config)
      [Cmd ''a'', Worker_step, Worker_step, Worker_step, Cmd ''w'', Cmd ''a''])) = Some ''left'' \<and>
   current_cmd (shared (run default_config no_failure (init_system default_config)
      [Cmd ''a'', Worker_step, Worker_step, Worker_step, Cmd ''w'', Cmd ''a'', Worker_step])) = None \<and>
   hw (shared (run default_config no_failure (init_system default_config)
      ([Cmd ''a'', Worker_step, Worker_step, Worker_step, Cmd ''w'', Cmd ''a'']
        @ replicate 13 Worker_step)))
   = [Move_position 0 0 15, Set_servo_angle 24 90, Set_servo_angle 25 90,
      Run_gait [''CMD_MOVE'', ''1'', ''-35'', ''0'', ''10'', ''0'']]"
  by code_simp

theorem latest_command_wins_witness:
  "fst (cmd_route ''a'' (fst (cmd_route ''w'' (init_state default_config))))
     = (init_state default_config)\<lparr>STOP_ALL := False, current_cmd := Some ''left''\<rparr> \<and>
   worker_tick no_failure (fst (cmd_route ''a'' (fst (cmd_route ''w'' (init_state default_config)))))
     = (W_test, (init_state default_config)\<lparr>STOP_ALL := False,
          hw := hw (init_state default_config)
                  @ [Run_gait [''CMD_MOVE'', ''1'', ''-35'', ''0'', ''10'', ''0'']]\<rparr>) \<and>
   worker_tick no_failure (fst (cmd_route ''i'' (fst (cmd_route ''w'' (init_state default_config)))))
     = (W_test, (init_state default_config)\<lparr>STOP_ALL := False, body_z := 17,
          hw := hw (init_state default_config) @ [Move_position 0 0 17]\<rparr>) \<and>
   fst (worker_pass no_failure 3
     (W_clear ''fwd'', fst (cmd_route ''a'' (fst (cmd_route ''w'' (init_state default_config))))))
     = W_test \<and>
   current_cmd (snd (worker_pass no_failure 3
     (W_clear ''fwd'', fst (cmd_route ''a'' (fst (cmd_route ''w'' (init_state default_config)))))))
     = Some ''left''"
proof -
  let ?i = "init_state default_config"
  let ?L = "fst (cmd_route ''a'' (fst (cmd_route ''w'' ?i)))"
  let ?R = "fst (cmd_route ''i'' (fst (cmd_route ''w'' ?i)))"
  let ?gl = "Run_gait [''CMD_MOVE'', ''1'', ''-35'', ''0'', ''10'', ''0'']"
  let ?z = "clamp (body_z ?R + 2) MIN_Z MAX_Z"
  note left = latest_command_wins[where ?k1.0 = "''w''" and ?c1.0 = "''fwd''" and ?m1.0 = "''Forward''"
      and ?k2.0 = "''a''" and ?c2.0 = "''left''" and ?m2.0 = "''Left''" and s = ?i and t = ?L
      and fails = no_failure and c = "''left''" and ?c0.0 = "''fwd''" and pc = "W_clear ''fwd''"]
  note rise = latest_command_wins[where ?k1.0 = "''w''" and ?c1.0 = "''fwd''" and ?m1.0 = "''Forward''"
      and ?k2.0 = "''i''" and ?c2.0 = "''raise''" and ?m2.0 = "''Raise body''" and s = ?i and t = ?R
      and fails = no_failure]
  have keys: "map_key_to_cmd ''w'' = (Some ''fwd'', ''Forward'') \<and>
              map_key_to_cmd ''a'' = (Some ''left'', ''Left'')"
    by (simp add: map_key_to_cmd_def)
  have runL: "thread_running ?L \<and> \<not> STOP_ALL ?L" by code_simp
  have runR: "thread_running ?R \<and> \<not> STOP_ALL ?R" by code_simp
  have rowL: "current_cmd ?L = Some ''left'' \<and> \<not> no_failure ?gl" by code_simp
  have rowR: "current_cmd ?R = Some ''raise'' \<and> \<not> no_failure (Move_position 0 0 ?z)" by code_simp
  have mid: "current_cmd ?L = Some ''left'' \<and> ''left'' \<noteq> ''fwd'' \<and>
     (W_clear ''fwd'' = W_exec ''fwd'' \<or> W_clear ''fwd'' = W_move ''fwd'' z \<or>
      W_clear ''fwd'' = W_clear ''fwd'')" for z
    by code_simp
  have 1: "?L = ?i\<lparr>STOP_ALL := False, current_cmd := Some ''left''\<rparr>"
    using left[THEN conjunct1, THEN mp, OF keys] .
  have 2: "worker_tick no_failure ?L = (W_test, ?L\<lparr>hw := hw ?L @ [?gl], current_cmd := None\<rparr>)"
    using left[THEN conjunct2, THEN conjunct1, THEN mp, OF runL, THEN conjunct2, THEN conjunct2,
      THEN conjunct2, THEN conjunct1, THEN mp, OF rowL] .
  have 3: "worker_tick no_failure ?R
      = (W_test, ?R\<lparr>body_z := ?z, hw := hw ?R @ [Move_position 0 0 ?z], current_cmd := None\<rparr>)"
    using rise[THEN conjunct2, THEN conjunct1, THEN mp, OF runR, THEN conjunct2, THEN conjunct2,
      THEN conjunct2, THEN conjunct2, THEN conjunct2, THEN conjunct2, THEN conjunct1, THEN mp, OF rowR] .
  note m = left[THEN conjunct2, THEN conjunct2, THEN mp, OF mid]
  have e2: "?L\<lparr>hw := hw ?L @ [?gl], current_cmd := None\<rparr>
      = ?i\<lparr>STOP_ALL := False, hw := hw ?i @ [?gl]\<rparr>" by code_simp
  have e3: "?R\<lparr>body_z := ?z, hw := hw ?R @ [Move_position 0 0 ?z], current_cmd := None\<rparr>
      = ?i\<lparr>STOP_ALL := False, body_z := 17, hw := hw ?i @ [Move_position 0 0 17]\<rparr>" by code_simp
  note r2 = 2[unfolded e2]
  note r3 = 3[unfolded e3]
  from 1 r2 r3 m[THEN conjunct1] m[THEN conjunct2, THEN conjunct1] show ?thesis by (intro conjI)
qed

subsection \<open>StopAll\<close>

lemma stopped_steps:
  assumes "STOP_ALL s" "pc = W_test \<or> pc = W_fetch \<or> pc = W_exited \<or> pc = W_crashed"
  shows "\<exists>m. hw (snd (worker_steps fails n (pc, s))) = hw s @ replicate m Relax \<and>
             STOP_ALL (snd (worker_steps fails n (pc, s)))"
  using assms
proof (induction n arbitrary: pc s)
  case 0
  then show ?case by simp
next
  case (Suc n)
  obtain pc' s' where st: "worker_step fails (pc, s) = (pc', s')"
    by (cases "worker_step fails (pc, s)") auto
  from Suc.prems st have a: "STOP_ALL s'"
     "pc' = W_test \<or> pc' = W_fetch \<or> pc' = W_exited \<or> pc' = W_crashed"
     and h: "hw s' = hw s \<or> hw s' = hw s @ [Relax]"
    by (auto simp: call_def split: if_splits)
  from Suc.IH[OF a] obtain m where m: "hw (snd (worker_steps fails n (pc', s'))) = hw s' @ replicate m Relax"
    "STOP_ALL (snd (worker_steps fails n (pc', s')))"
    by blast
  from h show ?case
  proof
    assume "hw s' = hw s"
    with m st show ?thesis by auto
  next
    assume "hw s' = hw s @ [Relax]"
    with m st have "hw (snd (worker_steps fails (Suc n) (pc, s))) = hw s @ replicate (Suc m) Relax"
      by simp
    with m st show ?thesis by (intro exI[of _ "Suc m"]) simp
  qed
qed

lemma stopped_tick:
  "STOP_ALL t \<Longrightarrow> thread_running t \<Longrightarrow> \<not> fails Relax \<Longrightarrow>
     worker_tick fails t = (W_test, t\<lparr>hw := hw t @ [Relax], current_cmd := None\<rparr>)"
  unfolding worker_tick_def five_Suc by (simp add: call_def)

lemma stopall_route_returned:
  "\<not> fails Relax \<Longrightarrow> stopall_route fails s =
     (s\<lparr>STOP_ALL := True, hw := hw s @ [Relax], current_cmd := None, active_preset := None\<rparr>,
      Returned)"
  by (simp add: stopall_route_def call_def)

lemma stopall_route_raised:
  "fails Relax \<Longrightarrow> stopall_route fails s = (s\<lparr>STOP_ALL := True, hw := hw s @ [Relax]\<rparr>, Raised)"
  by (simp add: stopall_route_def call_def)

text \<open>
  C2 (as amended): \<^verbatim>\<open>stopall_route\<close> sets \<^verbatim>\<open>STOP_ALL\<close> and calls \<^verbatim>\<open>relax()\<close>; when the call
  returns it empties the command slot and clears \<^verbatim>\<open>active_preset\<close>, all in one locked
  section, and when the call raises the flag is set and slot and preset id stay as
  they were. Whatever the slot holds, a worker pass that starts while the flag is set
  calls \<^verbatim>\<open>relax()\<close>, empties the slot and runs no command; and however many steps the
  worker takes from the top of its loop while the flag is set, all it ever calls is
  \<^verbatim>\<open>relax()\<close> and the flag stays set.
\<close>

theorem stopall_gates_later_passes:
  "(\<not> fails Relax \<longrightarrow> stopall_route fails s =
      (s\<lparr>STOP_ALL := True, hw := hw s @ [Relax], current_cmd := None, active_preset := None\<rparr>,
       Returned)) \<and>
   (fails Relax \<longrightarrow> stopall_route fails s =
      (s\<lparr>STOP_ALL := True, hw := hw s @ [Relax]\<rparr>, Raised)) \<and>
   (STOP_ALL t \<and> thread_running t \<and> \<not> fails Relax \<longrightarrow>
      worker_tick fails t = (W_test, t\<lparr>hw := hw t @ [Relax], current_cmd := None\<rparr>)) \<and>
   (STOP_ALL t \<longrightarrow>
      (\<exists>m. hw (snd (worker_steps fails n (W_test, t))) = hw t @ replicate m Relax) \<and>
      STOP_ALL (snd (worker_steps fails n (W_test, t))))"
proof (intro conjI impI)
  assume "STOP_ALL t"
  from stopped_steps[OF this, of W_test fails n]
  show "\<exists>m. hw (snd (worker_steps fails n (W_test, t))) = hw t @ replicate m Relax"
    and "STOP_ALL (snd (worker_steps fails n (W_test, t)))" by auto
next
  assume "STOP_ALL t \<and> thread_running t \<and> \<not> fails Relax"
  then show "worker_tick fails t = (W_test, t\<lparr>hw := hw t @ [Relax], current_cmd := None\<rparr>)"
    by (simp add: stopped_tick)
qed (erule stopall_route_returned stopall_route_raised)+

text \<open>
  C2 as stated fails when the worker has already taken the command out of the slot:
  \<^verbatim>\<open>/cmd?key=w\<close>, the worker passes its loop test and its first locked section (it now
  holds \<^verbatim>\<open>cmd = "fwd"\<close>), \<^verbatim>\<open>/stopall\<close> runs to its end, and the worker goes on to call
  \<^verbatim>\<open>run_gait\<close> after the \<^verbatim>\<open>relax()\<close> of StopAll.
\<close>

theorem stopall_inflight_counterexample:
  "hw (shared (run default_config no_failure (init_system default_config)
        [Cmd ''w'', Worker_step, Worker_step, Stopall, Worker_step]))
   = [Move_position 0 0 15, Set_servo_angle 24 90, Set_servo_angle 25 90, Relax,
      Run_gait [''CMD_MOVE'', ''1'', ''0'', ''35'', ''10'', ''0'']]"
  by code_simp

theorem stopall_gates_later_passes_witness:
  "stopall_route no_failure (fst (cmd_route ''w'' (init_state default_config)))
     = ((init_state default_config)\<lparr>STOP_ALL := True,
          hw := hw (init_state default_config) @ [Relax]\<rparr>, Returned) \<and>
   worker_tick no_failure (fst (stopall_route no_failure (fst (cmd_route ''w'' (init_state default_config)))))
     = (W_test, (init_state default_config)\<lparr>STOP_ALL := True,
          hw := hw (init_state default_config) @ [Relax, Relax]\<rparr>) \<and>
   stopall_route relax_fails (fst (cmd_route ''w'' (init_state default_config)))
     = ((init_state default_config)\<lparr>STOP_ALL := True, current_cmd := Some ''fwd'',
          hw := hw (init_state default_config) @ [Relax]\<rparr>, Raised) \<and>
   worker_tick no_failure ((init_state default_config)\<lparr>STOP_ALL := True, current_cmd := Some ''fwd''\<rparr>)
     = (W_test, (init_state default_config)\<lparr>STOP_ALL := True,
          hw := hw (init_state default_config) @ [Relax]\<rparr>) \<and>
   (\<exists>m. hw (snd (worker_steps relax_fails 7
           (W_test, fst (stopall_route relax_fails (fst (cmd_route ''w'' (init_state default_config)))))))
        = hw (init_state default_config) @ replicate m Relax)"
proof -
  let ?i = "init_state default_config"
  let ?c = "fst (cmd_route ''w'' ?i)"
  let ?t = "fst (stopall_route no_failure ?c)"
  let ?u = "?i\<lparr>STOP_ALL := True, current_cmd := Some ''fwd''\<rparr>"
  let ?v = "fst (stopall_route relax_fails ?c)"
  have nf: "\<not> no_failure Relax" by (simp add: no_failure_def)
  have rf: "relax_fails Relax" by (simp add: relax_fails_def)
  note a = stopall_gates_later_passes[where fails = no_failure and s = ?c and t = ?t]
  note b = stopall_gates_later_passes[where fails = no_failure and s = ?c and t = ?u]
  note d = stopall_gates_later_passes[where fails = relax_fails and s = ?c and t = ?v and n = 7]
  have 1: "stopall_route no_failure ?c =
      (?c\<lparr>STOP_ALL := True, hw := hw ?c @ [Relax], current_cmd := None, active_preset := None\<rparr>,
       Returned)"
    using a[THEN conjunct1, THEN mp, OF nf] .
  have t: "STOP_ALL ?t \<and> thread_running ?t \<and> \<not> no_failure Relax"
    by code_simp
  have 2: "worker_tick no_failure ?t = (W_test, ?t\<lparr>hw := hw ?t @ [Relax], current_cmd := None\<rparr>)"
    using a[THEN conjunct2, THEN conjunct2, THEN conjunct1, THEN mp, OF t] .
  have 3: "stopall_route relax_fails ?c = (?c\<lparr>STOP_ALL := True, hw := hw ?c @ [Relax]\<rparr>, Raised)"
    using d[THEN conjunct2, THEN conjunct1, THEN mp, OF rf] .
  have u: "STOP_ALL ?u \<and> thread_running ?u \<and> \<not> no_failure Relax"
    by code_simp
  have 4: "worker_tick no_failure ?u = (W_test, ?u\<lparr>hw := hw ?u @ [Relax], current_cmd := None\<rparr>)"
    using b[THEN conjunct2, THEN conjunct2, THEN conjunct1, THEN mp, OF u] .
  have v: "STOP_ALL ?v" by (rule stopall_route_fields)
  have 5: "\<exists>m. hw (snd (worker_steps relax_fails 7 (W_test, ?v))) = hw ?v @ replicate m Relax"
    using d[THEN conjunct2, THEN conjunct2, THEN conjunct2, THEN mp, OF v, THEN conjunct1] .
  have hv: "hw ?v = hw ?i @ [Relax]"
    by code_simp
  from 5 obtain m where "hw (snd (worker_steps relax_fails 7 (W_test, ?v))) = hw ?i @ replicate (Suc m) Relax"
    unfolding hv by (auto simp: replicate_app_Cons_same)
  then have steps: "\<exists>m. hw (snd (worker_steps relax_fails 7 (W_test, ?v))) = hw ?i @ replicate m Relax"
    by (rule exI)
  have e1: "(?c\<lparr>STOP_ALL := True, hw := hw ?c @ [Relax], current_cmd := None, active_preset := None\<rparr>)
      = ?i\<lparr>STOP_ALL := True, hw := hw ?i @ [Relax]\<rparr>"
    by code_simp
  have e2: "?t\<lparr>hw := hw ?t @ [Relax], current_cmd := None\<rparr>
      = ?i\<lparr>STOP_ALL := True, hw := hw ?i @ [Relax, Relax]\<rparr>"
    by code_simp
  have e3: "?c\<lparr>STOP_ALL := True, hw := hw ?c @ [Relax]\<rparr>
      = ?i\<lparr>STOP_ALL := True, current_cmd := Some ''fwd'', hw := hw ?i @ [Relax]\<rparr>"
    by code_simp
  have e4: "?u\<lparr>hw := hw ?u @ [Relax], current_cmd := None\<rparr>
      = ?i\<lparr>STOP_ALL := True, hw := hw ?i @ [Relax]\<rparr>"
    by code_simp
  note r1 = 1[unfolded e1]
  note r2 = 2[unfolded e2]
  note r3 = 3[unfolded e3]
  note r4 = 4[unfolded e4]
  from r1 r2 r3 r4 steps show ?thesis by (intro conjI)
qed

subsection \<open>Clearing the slot after an action\<close>

text \<open>
  C6 as stated fails for a newer command of the same name: \<^verbatim>\<open>/cmd?key=w\<close>, the worker
  fetches \<^verbatim>\<open>fwd\<close> and calls \<^verbatim>\<open>run_gait\<close>, a second \<^verbatim>\<open>/cmd?key=w\<close> arrives before the
  worker's last locked section, and the worker's test \<^verbatim>\<open>state.current_cmd == cmd\<close>
  succeeds: the slot is emptied and the second command is never run (one gait call in
  all).
\<close>

theorem same_name_overwrite_counterexample:
  "worker (run default_config no_failure (init_system default_config)
        [Cmd ''w'', Worker_step, Worker_step, Worker_step]) = W_clear ''fwd'' \<and>
   current_cmd (shared (run default_config no_failure (init_system default_config)
        [Cmd ''w'', Worker_step, Worker_step, Worker_step, Cmd ''w''])) = Some ''fwd'' \<and>
   current_cmd (shared (run default_config no_failure (init_system default_config)
        [Cmd ''w'', Worker_step, Worker_step, Worker_step, Cmd ''w'', Worker_step])) = None \<and>
   hw (shared (run default_config no_failure (init_system default_config)
        [Cmd ''w'', Worker_step, Worker_step, Worker_step, Cmd ''w'', Worker_step,
         Worker_step, Worker_step, Worker_step, Worker_step]))
   = [Move_position 0 0 15, Set_servo_angle 24 90, Set_servo_angle 25 90,
      Run_gait [''CMD_MOVE'', ''1'', ''0'', ''35'', ''10'', ''0'']]"
  by code_simp

text \<open>
  C6 (as amended): the last locked section of a pass empties the slot exactly when the
  slot holds a command equal to the one just run (\<^verbatim>\<open>==\<close> on the command names), and
  leaves it alone otherwise. A newer command of a different name therefore survives:
  with the worker running and no stop, its next pass fetches that command.
\<close>

theorem worker_clears_slot_on_equal_name:
  "current_cmd (snd (worker_step fails (W_clear cmd, s)))
     = (if current_cmd s = Some cmd then None else current_cmd s) \<and>
   (current_cmd s = Some new \<and> new \<noteq> cmd \<and> thread_running s \<and> \<not> STOP_ALL s \<longrightarrow>
      worker_steps fails 3 (W_clear cmd, s) = (W_exec new, s))"
  by (simp add: eval_nat_numeral)

theorem worker_clears_slot_on_equal_name_witness:
  "worker_steps no_failure 3
     (W_clear ''fwd'', (init_state default_config)\<lparr>current_cmd := Some ''left''\<rparr>)
   = (W_exec ''left'', (init_state default_config)\<lparr>current_cmd := Some ''left''\<rparr>)"
proof -
  let ?s = "(init_state default_config)\<lparr>current_cmd := Some ''left''\<rparr>"
  have "current_cmd ?s = Some ''left'' \<and> ''left'' \<noteq> ''fwd'' \<and> thread_running ?s \<and> \<not> STOP_ALL ?s"
    by (simp add: init_state_def)
  with worker_clears_slot_on_equal_name[of no_failure "''fwd''" ?s "''left''"]
  show ?thesis by (rule conjunct2[THEN mp])
qed

subsection \<open>Failing hardware calls in the worker\<close>

text \<open>
  C4 as stated fails: when \<^verbatim>\<open>run_gait\<close> raises, the worker is dead although
  \<^verbatim>\<open>thread_running\<close> is still true, and a later command is never looked at.
\<close>

theorem worker_crash_counterexample:
  "worker (run default_config gait_fails (init_system default_config)
        [Cmd ''w'', Worker_step, Worker_step, Worker_step]) = W_crashed \<and>
   thread_running (shared (run default_config gait_fails (init_system default_config)
        [Cmd ''w'', Worker_step, Worker_step, Worker_step])) \<and>
   run default_config gait_fails (init_system default_config)
        [Cmd ''w'', Worker_step, Worker_step, Worker_step, Cmd ''a'', Worker_step, Worker_step, Worker_step]
   = run default_config gait_fails (init_system default_config)
        [Cmd ''w'', Worker_step, Worker_step, Worker_step, Cmd ''a'']"
  by code_simp

lemma exited_only_by_flag:
  "worker_step fails (pc, s) = (W_exited, s') \<Longrightarrow>
     pc = W_exited \<or> (pc = W_test \<and> \<not> thread_running s)"
  by (cases pc) (simp_all add: worker_call_def Let_def split: if_splits option.splits)

lemma crashed_by_last_call:
  "worker_step fails (pc, s) = (W_crashed, s') \<Longrightarrow> pc \<noteq> W_crashed \<Longrightarrow>
     fails (last (hw s')) \<and> hw s' = hw s @ [last (hw s')]"
  by (cases pc) (clarsimp simp: worker_call_def Let_def call_def split: if_splits option.splits)+

lemma crashed_only_by_failure:
  assumes "worker_step fails (pc, s) = (W_crashed, s')"
  shows "pc = W_crashed \<or> (\<exists>c. fails c \<and> hw s' = hw s @ [c])"
proof (cases "pc = W_crashed")
  case False
  from crashed_by_last_call[OF assms False] show ?thesis by (intro disjI2 exI)
qed simp

lemma no_failure_no_crash_step:
  "pc \<noteq> W_crashed \<Longrightarrow> fst (worker_step no_failure (pc, s)) \<noteq> W_crashed"
  by (cases pc) (simp_all add: worker_call_def no_failure_def Let_def split: option.splits)

lemma no_failure_no_crash:
  "pc \<noteq> W_crashed \<Longrightarrow> fst (worker_steps no_failure n (pc, s)) \<noteq> W_crashed"
proof (induction n arbitrary: pc s)
  case 0
  then show ?case by simp
next
  case (Suc n)
  obtain pc' s' where st: "worker_step no_failure (pc, s) = (pc', s')"
    by (cases "worker_step no_failure (pc, s)") auto
  with no_failure_no_crash_step[OF Suc.prems, of s] have "pc' \<noteq> W_crashed" by simp
  from Suc.IH[OF this] st show ?case by simp
qed

lemma failing_call_ends_worker:
  "fails c \<Longrightarrow> worker_step fails (pc, s) = (pc', s') \<Longrightarrow> hw s' = hw s @ [c] \<Longrightarrow>
     pc' = W_crashed"
  by (cases pc) (clarsimp simp: worker_call_def Let_def call_def split: if_splits option.splits)+

lemma crashed_stays: "worker_steps fails n (W_crashed, s) = (W_crashed, s)"
  by (induction n) simp_all

text \<open>
  C4 (as amended): nothing in \<^verbatim>\<open>movement_worker\<close> catches an exception. A raising
  \<^verbatim>\<open>relax()\<close>, \<^verbatim>\<open>run_gait()\<close> or \<^verbatim>\<open>move_position()\<close> ends the worker at that call (the
  slot is not cleared), whatever step logs a failing call leaves the worker dead, and
  a dead worker stays dead. The worker leaves its loop otherwise only at the loop
  test, when \<^verbatim>\<open>thread_running\<close> is false; it dies only by a failing call, that call
  being the last one logged; and with no failing call it never dies.
\<close>

theorem worker_ends_by_flag_or_uncaught_failure:
  "(worker_step fails (pc, s) = (W_exited, s') \<longrightarrow>
      pc = W_exited \<or> (pc = W_test \<and> \<not> thread_running s)) \<and>
   (worker_step fails (pc, s) = (W_crashed, s') \<longrightarrow>
      pc = W_crashed \<or> (\<exists>c. fails c \<and> hw s' = hw s @ [c])) \<and>
   (\<not> thread_running s \<longrightarrow> worker_step fails (W_test, s) = (W_exited, s)) \<and>
   (pc \<noteq> W_crashed \<longrightarrow> fst (worker_steps no_failure n (pc, s)) \<noteq> W_crashed) \<and>
   (fails c \<and> worker_step fails (pc, s) = (pc', s') \<and> hw s' = hw s @ [c] \<longrightarrow>
      pc' = W_crashed) \<and>
   (STOP_ALL s \<and> fails Relax \<longrightarrow>
      worker_step fails (W_fetch, s) = (W_crashed, s\<lparr>hw := hw s @ [Relax]\<rparr>)) \<and>
   (fails (Move_position 0 0 z) \<longrightarrow>
      worker_step fails (W_move cmd z, s) =
        (W_crashed, s\<lparr>hw := hw s @ [Move_position 0 0 z]\<rparr>)) \<and>
   (fails (Run_gait [''CMD_MOVE'', ''1'', ''0'', ''35'', ''10'', ''0'']) \<longrightarrow>
      worker_step fails (W_exec ''fwd'', s) =
        (W_crashed, s\<lparr>hw := hw s @ [Run_gait [''CMD_MOVE'', ''1'', ''0'', ''35'', ''10'', ''0'']]\<rparr>)) \<and>
   (fails (Run_gait [''CMD_MOVE'', ''2'', ''0'', ''-35'', ''10'', ''10'']) \<longrightarrow>
      worker_step fails (W_exec ''back'', s) =
        (W_crashed, s\<lparr>hw := hw s @ [Run_gait [''CMD_MOVE'', ''2'', ''0'', ''-35'', ''10'', ''10'']]\<rparr>)) \<and>
   (fails (Run_gait [''CMD_MOVE'', ''1'', ''35'', ''0'', ''10'', ''0'']) \<longrightarrow>
      worker_step fails (W_exec ''right'', s) =
        (W_crashed, s\<lparr>hw := hw s @ [Run_gait [''CMD_MOVE'', ''1'', ''35'', ''0'', ''10'', ''0'']]\<rparr>)) \<and>
   (fails (Run_gait [''CMD_MOVE'', ''1'', ''-35'', ''0'', ''10'', ''0'']) \<longrightarrow>
      worker_step fails (W_exec ''left'', s) =
        (W_crashed, s\<lparr>hw := hw s @ [Run_gait [''CMD_MOVE'', ''1'', ''-35'', ''0'', ''10'', ''0'']]\<rparr>)) \<and>
   (fails (Run_gait [''CMD_MOVE'', ''1'', ''0'', ''0'', ''10'', ''20'']) \<longrightarrow>
      worker_step fails (W_exec ''turn_left'', s) =
        (W_crashed, s\<lparr>hw := hw s @ [Run_gait [''CMD_MOVE'', ''1'', ''0'', ''0'', ''10'', ''20'']]\<rparr>)) \<and>
   (fails (Run_gait [''CMD_MOVE'', ''1'', ''0'', ''0'', ''10'', ''-20'']) \<longrightarrow>
      worker_step fails (W_exec ''turn_right'', s) =
        (W_crashed, s\<lparr>hw := hw s @ [Run_gait [''CMD_MOVE'', ''1'', ''0'', ''0'', ''10'', ''-20'']]\<rparr>)) \<and>
   worker_steps fails n (W_crashed, s) = (W_crashed, s)"
proof (intro conjI impI)
  assume "worker_step fails (pc, s) = (W_exited, s')"
  then show "pc = W_exited \<or> (pc = W_test \<and> \<not> thread_running s)"
    by (rule exited_only_by_flag)
next
  assume "worker_step fails (pc, s) = (W_crashed, s')"
  then show "pc = W_crashed \<or> (\<exists>c. fails c \<and> hw s' = hw s @ [c])"
    by (rule crashed_only_by_failure)
next
  assume "pc \<noteq> W_crashed"
  then show "fst (worker_steps no_failure n (pc, s)) \<noteq> W_crashed"
    by (rule no_failure_no_crash)
next
  assume "fails c \<and> worker_step fails (pc, s) = (pc', s') \<and> hw s' = hw s @ [c]"
  then show "pc' = W_crashed"
    using failing_call_ends_worker[of fails c pc s pc' s'] by simp
next
  show "worker_steps fails n (W_crashed, s) = (W_crashed, s)"
    by (rule crashed_stays)
qed (simp_all add: worker_call_def call_def)


theorem worker_ends_by_flag_or_uncaught_failure_witness:
  "worker_step gait_fails (W_test, (init_state default_config)\<lparr>thread_running := False\<rparr>)
     = (W_exited, (init_state default_config)\<lparr>thread_running := False\<rparr>) \<and>
   (W_test = W_exited \<or>
    (W_test = W_test \<and> \<not> thread_running ((init_state default_config)\<lparr>thread_running := False\<rparr>))) \<and>
   worker_step gait_fails (W_exec ''fwd'', fst (cmd_route ''w'' (init_state default_config)))
     = (W_crashed, (fst (cmd_route ''w'' (init_state default_config)))
          \<lparr>hw := hw (fst (cmd_route ''w'' (init_state default_config)))
                  @ [Run_gait [''CMD_MOVE'', ''1'', ''0'', ''35'', ''10'', ''0'']]\<rparr>) \<and>
   fst (worker_step gait_fails (W_exec ''fwd'', fst (cmd_route ''w'' (init_state default_config))))
     = W_crashed \<and>
   (W_exec ''fwd'' = W_crashed \<or>
    (\<exists>c. gait_fails c \<and>
      hw (snd (worker_step gait_fails (W_exec ''fwd'', fst (cmd_route ''w'' (init_state default_config)))))
        = hw (fst (cmd_route ''w'' (init_state default_config))) @ [c])) \<and>
   worker_step relax_fails (W_fetch, (init_state default_config)\<lparr>STOP_ALL := True\<rparr>)
     = (W_crashed, (init_state default_config)\<lparr>STOP_ALL := True,
          hw := hw (init_state default_config) @ [Relax]\<rparr>) \<and>
   worker_step pose_fails (W_move ''raise'' 17, (init_state default_config)\<lparr>body_z := 17\<rparr>)
     = (W_crashed, (init_state default_config)\<lparr>body_z := 17,
          hw := hw (init_state default_config) @ [Move_position 0 0 17]\<rparr>) \<and>
   fst (worker_steps no_failure 3 (W_test, fst (cmd_route ''w'' (init_state default_config))))
     \<noteq> W_crashed \<and>
   worker_steps gait_fails 5 (W_crashed, fst (cmd_route ''w'' (init_state default_config)))
     = (W_crashed, fst (cmd_route ''w'' (init_state default_config)))"
proof -
  let ?i = "init_state default_config"
  let ?off = "?i\<lparr>thread_running := False\<rparr>"
  let ?s = "fst (cmd_route ''w'' ?i)"
  let ?g = "Run_gait [''CMD_MOVE'', ''1'', ''0'', ''35'', ''10'', ''0'']"
  let ?st = "?i\<lparr>STOP_ALL := True\<rparr>"
  let ?up = "?i\<lparr>body_z := 17\<rparr>"
  let ?r = "worker_step gait_fails (W_exec ''fwd'', ?s)"
  note off = worker_ends_by_flag_or_uncaught_failure
    [where fails = gait_fails and pc = W_test and s = ?off and s' = ?off]
  note gait = worker_ends_by_flag_or_uncaught_failure
    [where fails = gait_fails and pc = "W_exec ''fwd''" and s = ?s and s' = "snd ?r"
       and pc' = "fst ?r" and c = ?g and n = 5]
  note rel = worker_ends_by_flag_or_uncaught_failure[where fails = relax_fails and s = ?st]
  note pose = worker_ends_by_flag_or_uncaught_failure
    [where fails = pose_fails and s = ?up and z = 17 and cmd = "''raise''"]
  note calm = worker_ends_by_flag_or_uncaught_failure
    [where pc = W_test and s = ?s and n = 3]
  have h3: "\<not> thread_running ?off" by simp
  have 1: "worker_step gait_fails (W_test, ?off) = (W_exited, ?off)"
    using off[THEN conjunct2, THEN conjunct2, THEN conjunct1, THEN mp, OF h3] .
  have 2: "W_test = W_exited \<or> (W_test = W_test \<and> \<not> thread_running ?off)"
    using off[THEN conjunct1, THEN mp, OF 1] .
  have hg: "gait_fails ?g" by (simp add: gait_fails_def)
  have 3: "worker_step gait_fails (W_exec ''fwd'', ?s) = (W_crashed, ?s\<lparr>hw := hw ?s @ [?g]\<rparr>)"
    using gait[THEN conjunct2, THEN conjunct2, THEN conjunct2, THEN conjunct2, THEN conjunct2,
      THEN conjunct2, THEN conjunct2, THEN conjunct1, THEN mp, OF hg] .
  have h5: "gait_fails ?g \<and> worker_step gait_fails (W_exec ''fwd'', ?s) = (fst ?r, snd ?r) \<and>
      hw (snd ?r) = hw ?s @ [?g]"
    unfolding 3 using hg by simp
  have 4: "fst ?r = W_crashed"
    using gait[THEN conjunct2, THEN conjunct2, THEN conjunct2, THEN conjunct2, THEN conjunct1,
      THEN mp, OF h5] .
  have h2: "worker_step gait_fails (W_exec ''fwd'', ?s) = (W_crashed, snd ?r)"
    unfolding 3 by simp
  have 5: "W_exec ''fwd'' = W_crashed \<or> (\<exists>c. gait_fails c \<and> hw (snd ?r) = hw ?s @ [c])"
    using gait[THEN conjunct2, THEN conjunct1, THEN mp, OF h2] .
  have h6: "STOP_ALL ?st \<and> relax_fails Relax" by (simp add: relax_fails_def)
  have 6: "worker_step relax_fails (W_fetch, ?st) = (W_crashed, ?st\<lparr>hw := hw ?st @ [Relax]\<rparr>)"
    using rel[THEN conjunct2, THEN conjunct2, THEN conjunct2, THEN conjunct2, THEN conjunct2,
      THEN conjunct1, THEN mp, OF h6] .
  have h7: "pose_fails (Move_position 0 0 17)" by (simp add: pose_fails_def)
  have 7: "worker_step pose_fails (W_move ''raise'' 17, ?up)
      = (W_crashed, ?up\<lparr>hw := hw ?up @ [Move_position 0 0 17]\<rparr>)"
    using pose[THEN conjunct2, THEN conjunct2, THEN conjunct2, THEN conjunct2, THEN conjunct2,
      THEN conjunct2, THEN conjunct1, THEN mp, OF h7] .
  have h4: "W_test \<noteq> W_crashed" by simp
  have 8: "fst (worker_steps no_failure 3 (W_test, ?s)) \<noteq> W_crashed"
    using calm[THEN conjunct2, THEN conjunct2, THEN conjunct2, THEN conjunct1, THEN mp, OF h4] .
  have 9: "worker_steps gait_fails 5 (W_crashed, ?s) = (W_crashed, ?s)"
    using gait[THEN conjunct2, THEN conjunct2, THEN conjunct2, THEN conjunct2, THEN conjunct2,
      THEN conjunct2, THEN conjunct2, THEN conjunct2, THEN conjunct2, THEN conjunct2,
      THEN conjunct2, THEN conjunct2, THEN conjunct2] .
  have e6: "?st\<lparr>hw := hw ?st @ [Relax]\<rparr> = ?i\<lparr>STOP_ALL := True, hw := hw ?i @ [Relax]\<rparr>"
    by simp
  have e7: "?up\<lparr>hw := hw ?up @ [Move_position 0 0 17]\<rparr>
      = ?i\<lparr>body_z := 17, hw := hw ?i @ [Move_position 0 0 17]\<rparr>"
    by simp
  note r6 = 6[unfolded e6]
  note r7 = 7[unfolded e7]
  from 1 2 3 4 5 r6 r7 8 9 show ?thesis by (intro conjI)
qed

subsection \<open>The stop gate\<close>

lemma servo_writes_append: "servo_writes (xs @ ys) = servo_writes xs @ servo_writes ys"
  by (induction xs rule: servo_writes.induct) simp_all

lemma servo_writes_call:
  "servo_writes (hw (call c s)) =
     servo_writes (hw s) @ (case c of Set_servo_angle ch a \<Rightarrow> [(ch, a)] | _ \<Rightarrow> [])"
  by (cases c) (simp_all add: call_def servo_writes_append)

lemma guarded_stopped: "STOP_ALL s \<Longrightarrow> guarded_set_servo_angle ch a s = s"
  by (simp add: guarded_set_servo_angle_def)

lemma thread_step_stopped:
  "STOP_ALL s \<Longrightarrow> thread_step cfg k s = (k', s', sp) \<Longrightarrow>
     STOP_ALL s' \<and> servo_writes (hw s') = servo_writes (hw s)"
proof (induction cfg k s rule: thread_step.induct)
  case (9 cfg pan tilt k s)
  then show ?case by (auto simp: Let_def split: option.splits)
qed (auto simp: servo_writes_call guarded_stopped call_fields)

lemma worker_step_no_servo:
  "servo_writes (hw (snd (worker_step fails (pc, s)))) = servo_writes (hw s)"
  by (cases pc) (simp_all add: worker_call_def Let_def servo_writes_call split: option.splits)

lemma worker_step_keeps_flag:
  "STOP_ALL (snd (worker_step fails (pc, s))) = STOP_ALL s"
  by (cases pc) (simp_all add: worker_call_def Let_def call_def split: option.splits)

lemma handle_pan_tilt_stopped:
  "STOP_ALL s \<Longrightarrow> STOP_ALL (fst (handle_pan_tilt cfg cmd n s)) \<and>
     servo_writes (hw (fst (handle_pan_tilt cfg cmd n s))) = servo_writes (hw s)"
  by (simp add: handle_pan_tilt_def Let_def guarded_set_servo_angle_def servo_writes_call
      call_fields split: prod.splits)

lemma handle_pan_tilt_forwarded:
  "\<not> STOP_ALL s \<Longrightarrow> cmd \<noteq> ''relax'' \<Longrightarrow>
     hw (fst (handle_pan_tilt cfg cmd n s)) = hw s @
       [Set_servo_angle PAN_PORT (with_offset cfg PAN_PORT (pan_angle (fst (handle_pan_tilt cfg cmd n s)))),
        Set_servo_angle TILT_PORT (with_offset cfg TILT_PORT (tilt_angle (fst (handle_pan_tilt cfg cmd n s))))]"
  by (simp add: handle_pan_tilt_def Let_def guarded_set_servo_angle_def call_def split: prod.splits)

lemma step_stopped_no_servo:
  assumes "STOP_ALL (shared sys)"
  shows "servo_writes (hw (shared (step cfg fails sys e))) = servo_writes (hw (shared sys))"
proof (cases e)
  case (Cmd key)
  then show ?thesis
    by (simp add: cmd_route_def Let_def split: prod.splits option.splits)
next
  case Stopall
  then show ?thesis by (simp add: stopall_route_def Let_def servo_writes_call)
next
  case (Pt cmd n)
  with assms show ?thesis by (simp add: handle_pan_tilt_stopped)
next
  case Sensors
  then show ?thesis by (simp add: sensors_route_def servo_writes_call)
next
  case (Buzzer mode)
  then show ?thesis by (simp add: buzzer_route_def servo_writes_call)
next
  case (Led mode r g b)
  obtain k s' sp where ts: "thread_step cfg [led_set mode r g b] (shared sys) = (k, s', sp)"
    by (cases "thread_step cfg [led_set mode r g b] (shared sys)") auto
  from thread_step_stopped[OF assms ts] Led ts show ?thesis
    by (simp add: led_route_def)
next
  case (Preset name)
  then show ?thesis by (simp add: preset_route_def run_preset_def)
next
  case Worker_step
  obtain pc s' where ws: "worker_step fails (worker sys, shared sys) = (pc, s')"
    by (cases "worker_step fails (worker sys, shared sys)") auto
  with worker_step_no_servo[of fails "worker sys" "shared sys"] Worker_step show ?thesis
    by simp
next
  case (Thread_step i)
  show ?thesis
  proof (cases "i < length (threads sys)")
    case False
    with Thread_step show ?thesis by simp
  next
    case True
    obtain k s' sp where ts: "thread_step cfg (threads sys ! i) (shared sys) = (k, s', sp)"
      by (cases "thread_step cfg (threads sys ! i) (shared sys)") auto
    from thread_step_stopped[OF assms ts] Thread_step True ts show ?thesis by simp
  qed
qed

text \<open>
  C3: every \<^verbatim>\<open>set_servo_angle\<close> call the program makes after start-up (in
  \<^verbatim>\<open>handle_pan_tilt\<close> and in \<^verbatim>\<open>pt_to\<close> of the presets) goes through
  \<^verbatim>\<open>guarded_set_servo_angle\<close>. While \<^verbatim>\<open>STOP_ALL\<close> is set, no step of the system, whichever
  request, worker step or thread statement it is, adds a servo write to the hardware
  log, and the dropped write changes nothing else; while it is clear, the write
  reaches the hardware with the port and angle it was given.
\<close>

theorem servo_writes_pass_the_gate:
  "(STOP_ALL (shared sys) \<longrightarrow>
      servo_writes (hw (shared (step cfg fails sys e))) = servo_writes (hw (shared sys))) \<and>
   (STOP_ALL s \<longrightarrow> thread_step cfg (Servo_write ch a # k) s = (k, s, [])) \<and>
   (\<not> STOP_ALL s \<longrightarrow>
      thread_step cfg (Servo_write ch a # k) s = (k, call (Set_servo_angle ch a) s, [])) \<and>
   (STOP_ALL s \<longrightarrow> servo_writes (hw (fst (handle_pan_tilt cfg cmd n s))) = servo_writes (hw s)) \<and>
   (\<not> STOP_ALL s \<and> cmd \<noteq> ''relax'' \<longrightarrow>
      hw (fst (handle_pan_tilt cfg cmd n s)) = hw s @
       [Set_servo_angle PAN_PORT (with_offset cfg PAN_PORT (pan_angle (fst (handle_pan_tilt cfg cmd n s)))),
        Set_servo_angle TILT_PORT (with_offset cfg TILT_PORT (tilt_angle (fst (handle_pan_tilt cfg cmd n s))))])"
  using step_stopped_no_servo handle_pan_tilt_stopped handle_pan_tilt_forwarded
  by (simp add: guarded_set_servo_angle_def)


theorem servo_writes_pass_the_gate_witness:
  "servo_writes (hw (shared (step default_config no_failure
       (run default_config no_failure (init_system default_config) [Stopall])
       (Pt ''pan_left'' 3)))) = [(24, 90), (25, 90)] \<and>
   thread_step default_config [Servo_write 24 60] (fst (stopall_route no_failure (init_state default_config)))
     = ([], fst (stopall_route no_failure (init_state default_config)), []) \<and>
   hw (fst (handle_pan_tilt default_config ''pan_left'' 3 (init_state default_config)))
     = [Move_position 0 0 15, Set_servo_angle 24 90, Set_servo_angle 25 90,
        Set_servo_angle 24 87, Set_servo_angle 25 90]"
proof -
  let ?sys = "run default_config no_failure (init_system default_config) [Stopall]"
  let ?stopped = "fst (stopall_route no_failure (init_state default_config))"
  let ?init = "init_state default_config"
  have st: "STOP_ALL (shared ?sys)" by code_simp
  have st': "STOP_ALL ?stopped" by code_simp
  have go: "\<not> STOP_ALL ?init \<and> ''pan_left'' \<noteq> ''relax''" by (simp add: init_state_def)
  note gate_stopped = servo_writes_pass_the_gate
    [of ?sys default_config no_failure "Pt ''pan_left'' 3" ?stopped 24 60 "[]" "''pan_left''" 3]
  note gate_open = servo_writes_pass_the_gate
    [of ?sys default_config no_failure "Pt ''pan_left'' 3" ?init 24 60 "[]" "''pan_left''" 3]
  have base: "servo_writes (hw (shared ?sys)) = [(24, 90), (25, 90)]" by code_simp
  have 1: "servo_writes (hw (shared (step default_config no_failure ?sys (Pt ''pan_left'' 3))))
      = [(24, 90), (25, 90)]"
    using gate_stopped[THEN conjunct1, THEN mp, OF st] base by simp
  have 2: "thread_step default_config [Servo_write 24 60] ?stopped = ([], ?stopped, [])"
    using gate_stopped[THEN conjunct2, THEN conjunct1, THEN mp, OF st'] .
  have sent: "hw ?init @
       [Set_servo_angle PAN_PORT (with_offset default_config PAN_PORT
          (pan_angle (fst (handle_pan_tilt default_config ''pan_left'' 3 ?init)))),
        Set_servo_angle TILT_PORT (with_offset default_config TILT_PORT
          (tilt_angle (fst (handle_pan_tilt default_config ''pan_left'' 3 ?init))))]
     = [Move_position 0 0 15, Set_servo_angle 24 90, Set_servo_angle 25 90,
        Set_servo_angle 24 87, Set_servo_angle 25 90]"
    by code_simp
  have 3: "hw (fst (handle_pan_tilt default_config ''pan_left'' 3 ?init))
     = [Move_position 0 0 15, Set_servo_angle 24 90, Set_servo_angle 25 90,
        Set_servo_angle 24 87, Set_servo_angle 25 90]"
    using gate_open[THEN conjunct2, THEN conjunct2, THEN conjunct2, THEN conjunct2, THEN mp, OF go]
    unfolding sent .
  from 1 2 3 show ?thesis by (intro conjI)
qed

subsection \<open>What clears the stop flag\<close>

lemma thread_step_keeps_flag:
  "thread_step cfg k s = (k', s', sp) \<Longrightarrow> STOP_ALL s' = STOP_ALL s"
proof (induction cfg k s rule: thread_step.induct)
  case (9 cfg pan tilt k s)
  then show ?case by (auto simp: Let_def split: option.splits)
qed (auto simp: call_fields guarded_set_servo_angle_def split: if_splits)

lemma handle_pan_tilt_keeps_flag:
  "STOP_ALL (fst (handle_pan_tilt cfg cmd n s)) = STOP_ALL s"
  by (simp add: handle_pan_tilt_def Let_def guarded_set_servo_angle_def call_fields
      split: prod.splits)

lemma step_keeps_stop:
  assumes "STOP_ALL (shared sys)" "\<forall>key. e \<noteq> Cmd key"
    and "\<forall>name. e = Preset name \<longrightarrow> name \<noteq> ''demo1'' \<and> name \<noteq> ''demo2'' \<and> name \<noteq> ''demo3''"
  shows "STOP_ALL (shared (step cfg fails sys e))"
proof (cases e)
  case (Cmd key)
  with assms(2) show ?thesis by simp
next
  case Stopall
  then show ?thesis by (simp add: stopall_route_def Let_def call_fields)
next
  case (Pt cmd n)
  with assms(1) show ?thesis by (simp add: handle_pan_tilt_keeps_flag)
next
  case Sensors
  with assms(1) show ?thesis by (simp add: sensors_route_def call_fields)
next
  case (Buzzer mode)
  with assms(1) show ?thesis by (simp add: buzzer_route_def call_fields)
next
  case (Led mode r g b)
  obtain k s' sp where ts: "thread_step cfg [led_set mode r g b] (shared sys) = (k, s', sp)"
    by (cases "thread_step cfg [led_set mode r g b] (shared sys)") auto
  from thread_step_keeps_flag[OF ts] assms(1) Led ts show ?thesis
    by (simp add: led_route_def)
next
  case (Preset name)
  with assms(1,3) show ?thesis by (simp add: preset_route_def)
next
  case Worker_step
  obtain pc s' where ws: "worker_step fails (worker sys, shared sys) = (pc, s')"
    by (cases "worker_step fails (worker sys, shared sys)") auto
  with worker_step_keeps_flag[of fails "worker sys" "shared sys"] assms(1) Worker_step
  show ?thesis by simp
next
  case (Thread_step i)
  show ?thesis
  proof (cases "i < length (threads sys)")
    case False
    with assms(1) Thread_step show ?thesis by simp
  next
    case True
    obtain k s' sp where ts: "thread_step cfg (threads sys ! i) (shared sys) = (k, s', sp)"
      by (cases "thread_step cfg (threads sys ! i) (shared sys)") auto
    from thread_step_keeps_flag[OF ts] assms(1) Thread_step True ts show ?thesis by simp
  qed
qed

text \<open>
  C5 (as amended): \<^verbatim>\<open>STOP_ALL\<close> is cleared by a \<^verbatim>\<open>/cmd\<close> movement request and by the
  start of a preset (\<^verbatim>\<open>run_preset\<close>), and by nothing else: a pan/tilt request leaves
  the flag as it is, and so do StopAll, the sensor, buzzer and LED requests, a
  rejected preset name, every worker step and every statement of an effect thread.
\<close>

theorem stop_flag_cleared_by_cmd_and_preset_only:
  "(map_key_to_cmd key = (Some c, m) \<longrightarrow> \<not> STOP_ALL (fst (cmd_route key s))) \<and>
   \<not> STOP_ALL (fst (run_preset name s)) \<and>
   STOP_ALL (fst (handle_pan_tilt cfg cmd n s)) = STOP_ALL s \<and>
   (STOP_ALL (shared sys) \<and> (\<forall>key. e \<noteq> Cmd key) \<and>
    (\<forall>name. e = Preset name \<longrightarrow> name \<noteq> ''demo1'' \<and> name \<noteq> ''demo2'' \<and> name \<noteq> ''demo3'')
      \<longrightarrow> STOP_ALL (shared (step cfg fails sys e)))"
  using step_keeps_stop[of sys e cfg fails]
  by (simp add: cmd_route_known run_preset_def handle_pan_tilt_keeps_flag)

text \<open>
  C5 as stated fails twice: after StopAll, starting the preset \<^verbatim>\<open>demo1\<close> clears the
  flag, and the pan/tilt request \<^verbatim>\<open>pan_left\<close> does not clear it.
\<close>

theorem stop_flag_counterexample:
  "STOP_ALL (shared (run default_config no_failure (init_system default_config)
      [Stopall])) \<and>
   \<not> STOP_ALL (shared (run default_config no_failure (init_system default_config)
      [Stopall, Preset ''demo1''])) \<and>
   STOP_ALL (shared (run default_config no_failure (init_system default_config)
      [Stopall, Pt ''pan_left'' 3]))"
  by code_simp

theorem stop_flag_cleared_by_cmd_and_preset_only_witness:
  "\<not> STOP_ALL (fst (cmd_route ''w'' (fst (stopall_route no_failure (init_state default_config))))) \<and>
   STOP_ALL (shared (step default_config no_failure
      (run default_config no_failure (init_system default_config) [Stopall]) (Thread_step 0)))"
proof -
  let ?sys = "run default_config no_failure (init_system default_config) [Stopall]"
  note T = stop_flag_cleared_by_cmd_and_preset_only
    [of "''w''" "''fwd''" "''Forward''" "fst (stopall_route no_failure (init_state default_config))" "''demo1''"
        default_config "''center''" 3 ?sys "Thread_step 0" no_failure]
  have k: "map_key_to_cmd ''w'' = (Some ''fwd'', ''Forward'')" by (simp add: map_key_to_cmd_def)
  have h: "STOP_ALL (shared ?sys) \<and> (\<forall>key. Thread_step 0 \<noteq> Cmd key) \<and>
    (\<forall>name. Thread_step 0 = Preset name \<longrightarrow> name \<noteq> ''demo1'' \<and> name \<noteq> ''demo2'' \<and> name \<noteq> ''demo3'')"
    by (simp add: run_def init_system_def stopall_route_def Let_def call_fields)
  from T[THEN conjunct1, THEN mp, OF k]
       T[THEN conjunct2, THEN conjunct2, THEN conjunct2, THEN mp, OF h]
  show ?thesis by (intro conjI)
qed

subsection \<open>Unknown names\<close>

lemma unknown_key_only_clears_flag:
  "map_key_to_cmd key = (None, m) \<Longrightarrow>
     cmd_route key s = (s\<lparr>STOP_ALL := False\<rparr>, ''Unknown hexapod command'')"
  by (simp add: cmd_route_def)

lemma unknown_preset_rejected:
  "name \<noteq> ''demo1'' \<Longrightarrow> name \<noteq> ''demo2'' \<Longrightarrow> name \<noteq> ''demo3'' \<Longrightarrow>
     preset_route name s = ((s, []), ''Unknown preset'', 400)"
  by (simp add: preset_route_def)

text \<open>
  C7: the claim holds for an unknown preset name and, for an unknown command key, as
  far as the command slot goes; but \<^verbatim>\<open>cmd_route\<close> sets \<^verbatim>\<open>STOP_ALL = False\<close> before it
  looks the key up, so the unknown key \<^verbatim>\<open>x\<close> sent after StopAll releases the stop.
\<close>

theorem unknown_key_releases_stop:
  "map_key_to_cmd ''x'' = (None, ''Unknown hexapod command'') \<and>
   STOP_ALL (shared (run default_config no_failure (init_system default_config) [Stopall])) \<and>
   \<not> STOP_ALL (shared (run default_config no_failure (init_system default_config)
        [Stopall, Cmd ''x''])) \<and>
   current_cmd (shared (run default_config no_failure (init_system default_config)
        [Stopall, Cmd ''x''])) = None"
  by code_simp

subsection \<open>Bounds on height and angles\<close>

lemma clamp_bounds: "lo \<le> hi \<Longrightarrow> lo \<le> clamp v lo hi \<and> clamp v lo hi \<le> hi"
  by (simp add: clamp_def)

lemma z_bounds: "MIN_Z \<le> clamp v MIN_Z MAX_Z \<and> clamp v MIN_Z MAX_Z \<le> MAX_Z"
  by (rule clamp_bounds) (simp add: MIN_Z_def MAX_Z_def)

lemma bounds_ok_call: "bounds_ok cfg (call c s) = bounds_ok cfg s"
  by (simp add: bounds_ok_def call_def)

lemma worker_step_bounds:
  "bounds_ok cfg s \<Longrightarrow> bounds_ok cfg (snd (worker_step fails (pc, s)))"
proof (cases pc)
  case (W_exec cmd)
  assume "bounds_ok cfg s"
  with W_exec z_bounds show ?thesis
    by (simp add: worker_call_def Let_def bounds_ok_call) (simp add: bounds_ok_def)
qed (simp_all add: worker_call_def bounds_ok_call split: option.splits, simp_all add: bounds_ok_def call_def)

lemma handle_pan_tilt_bounds:
  assumes "PAN_MIN cfg \<le> 90" "90 \<le> PAN_MAX cfg" "TILT_MIN cfg \<le> 90" "90 \<le> TILT_MAX cfg"
    and "bounds_ok cfg s"
  shows "bounds_ok cfg (fst (handle_pan_tilt cfg cmd n s))"
proof -
  have p: "PAN_MIN cfg \<le> clamp v (PAN_MIN cfg) (PAN_MAX cfg) \<and>
           clamp v (PAN_MIN cfg) (PAN_MAX cfg) \<le> PAN_MAX cfg" for v
    using assms(1,2) by (intro clamp_bounds) simp
  have t: "TILT_MIN cfg \<le> clamp v (TILT_MIN cfg) (TILT_MAX cfg) \<and>
           clamp v (TILT_MIN cfg) (TILT_MAX cfg) \<le> TILT_MAX cfg" for v
    using assms(3,4) by (intro clamp_bounds) simp
  from assms p t show ?thesis
    by (simp add: handle_pan_tilt_def Let_def guarded_set_servo_angle_def bounds_ok_def
        call_fields split: prod.splits)
qed

lemma thread_step_bounds:
  assumes "PAN_MIN cfg \<le> PAN_MAX cfg" "TILT_MIN cfg \<le> TILT_MAX cfg"
    and "bounds_ok cfg s" "thread_step cfg k s = (k', s', sp)"
  shows "bounds_ok cfg s'"
proof -
  have p: "PAN_MIN cfg \<le> clamp v (PAN_MIN cfg) (PAN_MAX cfg) \<and>
           clamp v (PAN_MIN cfg) (PAN_MAX cfg) \<le> PAN_MAX cfg" for v
    using assms(1) by (rule clamp_bounds)
  have t: "TILT_MIN cfg \<le> clamp v (TILT_MIN cfg) (TILT_MAX cfg) \<and>
           clamp v (TILT_MIN cfg) (TILT_MAX cfg) \<le> TILT_MAX cfg" for v
    using assms(2) by (rule clamp_bounds)
  show ?thesis
  proof (cases k)
    case Nil
    with assms(3,4) show ?thesis by simp
  next
    case (Cons x rest)
    show ?thesis
    proof (cases x)
      case (Pt_to pan tilt)
      with Cons assms(3,4) p t show ?thesis
        by (auto simp: Let_def bounds_ok_def split: option.splits)
    next
      case (For bodies)
      with Cons assms(3,4) show ?thesis
        by (cases bodies) (auto split: if_splits)
    qed (use Cons assms(3,4) in
          \<open>auto simp: bounds_ok_def call_fields guarded_set_servo_angle_def split: if_splits\<close>)
  qed
qed

lemma step_bounds:
  assumes lim: "PAN_MIN cfg \<le> 90" "90 \<le> PAN_MAX cfg" "TILT_MIN cfg \<le> 90" "90 \<le> TILT_MAX cfg"
    and ok: "bounds_ok cfg (shared sys)"
  shows "bounds_ok cfg (shared (step cfg fails sys e))"
proof (cases e)
  case (Cmd key)
  with ok show ?thesis
    by (simp add: cmd_route_def Let_def bounds_ok_def split: prod.splits option.splits)
next
  case Stopall
  with ok show ?thesis by (simp add: stopall_route_def Let_def bounds_ok_def call_fields)
next
  case (Pt cmd n)
  with handle_pan_tilt_bounds[OF lim ok] show ?thesis by simp
next
  case Sensors
  with ok show ?thesis by (simp add: sensors_route_def bounds_ok_call)
next
  case (Buzzer mode)
  with ok show ?thesis by (simp add: buzzer_route_def bounds_ok_call)
next
  case (Led mode r g b)
  obtain k s' sp where ts: "thread_step cfg [led_set mode r g b] (shared sys) = (k, s', sp)"
    by (cases "thread_step cfg [led_set mode r g b] (shared sys)") auto
  from lim have "PAN_MIN cfg \<le> PAN_MAX cfg" "TILT_MIN cfg \<le> TILT_MAX cfg" by simp_all
  from thread_step_bounds[OF this ok ts] Led ts show ?thesis by (simp add: led_route_def)
next
  case (Preset name)
  with ok show ?thesis by (simp add: preset_route_def run_preset_def bounds_ok_def)
next
  case Worker_step
  obtain pc s' where ws: "worker_step fails (worker sys, shared sys) = (pc, s')"
    by (cases "worker_step fails (worker sys, shared sys)") auto
  with worker_step_bounds[OF ok, of fails "worker sys"] Worker_step show ?thesis by simp
next
  case (Thread_step i)
  show ?thesis
  proof (cases "i < length (threads sys)")
    case False
    with ok Thread_step show ?thesis by simp
  next
    case True
    obtain k s' sp where ts: "thread_step cfg (threads sys ! i) (shared sys) = (k, s', sp)"
      by (cases "thread_step cfg (threads sys ! i) (shared sys)") auto
    from lim have "PAN_MIN cfg \<le> PAN_MAX cfg" "TILT_MIN cfg \<le> TILT_MAX cfg" by simp_all
    from thread_step_bounds[OF this ok ts] Thread_step True ts show ?thesis by simp
  qed
qed

text \<open>
  When the configured limits contain the centre position 90, the bounds hold at
  start-up and after every run.
\<close>

lemma bounds_hold_when_limits_contain_90:
  assumes "PAN_MIN cfg \<le> 90" "90 \<le> PAN_MAX cfg" "TILT_MIN cfg \<le> 90" "90 \<le> TILT_MAX cfg"
  shows "bounds_ok cfg (shared (run cfg fails (init_system cfg) evs))"
proof -
  have "bounds_ok cfg (shared sys) \<Longrightarrow> bounds_ok cfg (shared (run cfg fails sys evs))" for sys
    unfolding run_def
    by (induction evs arbitrary: sys) (simp_all add: step_bounds[OF assms])
  moreover have "bounds_ok cfg (shared (init_system cfg))"
    using assms
    by (simp add: init_system_def init_state_def bounds_ok_def RESET_Z_def MIN_Z_def MAX_Z_def)
  ultimately show ?thesis .
qed

text \<open>
  C9: the height bound always holds, and the angle bounds hold when the limits contain
  90. With a limits file whose pan range is 100 to 180 the claim fails: the
  constructor starts the pan angle at 90, and after \<^verbatim>\<open>pan_right\<close> has brought it to
  100, inside the range, \<^verbatim>\<open>center\<close> sets it to 90 again without clamping and sends 90
  to the pan servo.
\<close>

theorem center_leaves_configured_limits:
  "PAN_MIN narrow_config = 100 \<and>
   pan_angle (init_state narrow_config) = 90 \<and>
   bounds_ok narrow_config (shared (run narrow_config no_failure (init_system narrow_config)
      [Pt ''pan_right'' 3])) \<and>
   \<not> bounds_ok narrow_config (shared (run narrow_config no_failure (init_system narrow_config)
      [Pt ''pan_right'' 3, Pt ''center'' 3])) \<and>
   servo_writes (hw (shared (run narrow_config no_failure (init_system narrow_config)
      [Pt ''pan_right'' 3, Pt ''center'' 3])))
     = [(24, 90), (25, 90), (24, 100), (25, 90), (24, 90), (25, 90)]"
  by code_simp

subsection \<open>Effect threads and the stop flag\<close>

lemma for_stopped: "STOP_ALL s \<Longrightarrow> thread_step cfg (For bodies # k) s = (k, s, [])"
  by (cases bodies) simp_all

lemma thread_run_stopped:
  "STOP_ALL s \<Longrightarrow> thread_run cfg m (k, s, sp) = (k', s', sp') \<Longrightarrow>
     STOP_ALL s' \<and> servo_writes (hw s') = servo_writes (hw s)"
proof (induction m arbitrary: k s sp)
  case 0
  then show ?case by simp
next
  case (Suc m)
  obtain k1 s1 new where ts: "thread_step cfg k s = (k1, s1, new)"
    by (cases "thread_step cfg k s") auto
  from thread_step_stopped[OF Suc.prems(1) ts]
  have 1: "STOP_ALL s1" and 2: "servo_writes (hw s1) = servo_writes (hw s)" by simp_all
  from Suc.prems(2) ts have "thread_run cfg m (k1, s1, sp @ new) = (k', s', sp')" by simp
  from Suc.IH[OF 1 this] 2 show ?case by simp
qed

lemmas effect_defs = led_blink_def led_breathe_def led_police_def led_rainbow_def
  preset_body_def demo1_iteration_def demo2_iteration_def led_set_def

lemma row_loop_skip:
  "(STOP_ALL s \<longrightarrow>
      thread_step cfg (For bodies # k) s = (k, s, []))"
  by (simp add: for_stopped)

lemma row_loop_enter:
  "(\<not> STOP_ALL s \<longrightarrow>
      thread_step cfg (For (body # rest) # k) s = (body @ For rest # k, s, []))"
  by simp

lemma row_blink_enter:
  "(\<not> STOP_ALL s \<longrightarrow>
      thread_run cfg 1 (led_blink r g b (Suc n), s, []) =
       ([Led_solid r g b, Sleep, Led_off, Sleep] @ [For (replicate n [Led_solid r g b, Sleep, Led_off, Sleep])], s, []))"
  by (simp add: effect_defs eval_nat_numeral for_stopped Let_def
      guarded_set_servo_angle_def call_def)

lemma row_blink_skip:
  "(STOP_ALL s \<longrightarrow>
      thread_run cfg 1 (led_blink r g b n, s, []) = ([], s, []))"
  by (simp add: effect_defs eval_nat_numeral for_stopped Let_def
      guarded_set_servo_angle_def call_def)

lemma row_blink_begun:
  "(STOP_ALL s \<longrightarrow>
      thread_run cfg 5 ([Led_solid r g b, Sleep, Led_off, Sleep] @ [For (replicate n [Led_solid r g b, Sleep, Led_off, Sleep])], s, []) =
       ([], s\<lparr>hw := hw s @ [Color_wipe r g b, Color_wipe 0 0 0]\<rparr>, []))"
  by (simp add: effect_defs eval_nat_numeral for_stopped Let_def
      guarded_set_servo_angle_def call_def)

lemma row_breathe_skip:
  "(STOP_ALL s \<longrightarrow>
      thread_run cfg 2 (led_breathe r g b n, s, []) = ([], s\<lparr>hw := hw s @ [Color_wipe 0 0 0]\<rparr>, []))"
  by (simp add: effect_defs eval_nat_numeral for_stopped Let_def
      guarded_set_servo_angle_def call_def)

lemma row_breathe_enter:
  "(\<not> STOP_ALL s \<longrightarrow>
      thread_run cfg 2 (led_breathe r g b (Suc n), s, []) =
       ([Led_scaled r g b 0, Sleep, For (map (\<lambda>lvl. [Led_scaled r g b lvl, Sleep]) (tl ([0..<21] @ rev [0..<21]))),
         For (replicate n [For (map (\<lambda>lvl. [Led_scaled r g b lvl, Sleep]) ([0..<21] @ rev [0..<21]))]), Led_off], s, []))"
  by (simp add: effect_defs eval_nat_numeral for_stopped Let_def
      guarded_set_servo_angle_def call_def)

lemma row_breathe_begun:
  "(STOP_ALL s \<longrightarrow>
      thread_run cfg 5 ([Led_scaled r g b 0, Sleep, For (map (\<lambda>lvl. [Led_scaled r g b lvl, Sleep]) (tl ([0..<21] @ rev [0..<21]))),
         For (replicate n [For (map (\<lambda>lvl. [Led_scaled r g b lvl, Sleep]) ([0..<21] @ rev [0..<21]))]), Led_off], s, []) =
       ([], s\<lparr>hw := hw s @ [Color_wipe_scaled r g b 0, Color_wipe 0 0 0]\<rparr>, []))"
  by (simp add: effect_defs eval_nat_numeral for_stopped Let_def
      guarded_set_servo_angle_def call_def)

lemma row_police_skip:
  "(STOP_ALL s \<longrightarrow>
      thread_run cfg 2 (led_police n, s, []) = ([], s\<lparr>hw := hw s @ [Color_wipe 0 0 0]\<rparr>, []))"
  by (simp add: effect_defs eval_nat_numeral for_stopped Let_def
      guarded_set_servo_angle_def call_def)

lemma row_police_enter:
  "(\<not> STOP_ALL s \<longrightarrow>
      thread_run cfg 1 (led_police (Suc n), s, []) =
       ([Led_solid 255 0 0, Sleep, Led_off, Sleep, Led_solid 0 0 255, Sleep, Led_off, Sleep] @ [For (replicate n [Led_solid 255 0 0, Sleep, Led_off, Sleep, Led_solid 0 0 255, Sleep, Led_off, Sleep]), Led_off], s, []))"
  by (simp add: effect_defs eval_nat_numeral for_stopped Let_def
      guarded_set_servo_angle_def call_def)

lemma row_police_begun:
  "(STOP_ALL s \<longrightarrow>
      thread_run cfg 10 ([Led_solid 255 0 0, Sleep, Led_off, Sleep, Led_solid 0 0 255, Sleep, Led_off, Sleep] @ [For (replicate n [Led_solid 255 0 0, Sleep, Led_off, Sleep, Led_solid 0 0 255, Sleep, Led_off, Sleep]), Led_off], s, []) =
       ([], s\<lparr>hw := hw s @ [Color_wipe 255 0 0, Color_wipe 0 0 0, Color_wipe 0 0 255, Color_wipe 0 0 0, Color_wipe 0 0 0]\<rparr>, []))"
  by (simp add: effect_defs eval_nat_numeral for_stopped Let_def
      guarded_set_servo_angle_def call_def)

lemma row_rainbow_skip:
  "(STOP_ALL s \<longrightarrow>
      thread_run cfg 2 (led_rainbow 1 steps, s, []) = ([], s\<lparr>hw := hw s @ [Color_wipe 0 0 0]\<rparr>, []))"
  by (simp add: effect_defs eval_nat_numeral for_stopped Let_def
      guarded_set_servo_angle_def call_def)

lemma row_rainbow_outer:
  "(STOP_ALL s \<longrightarrow>
      thread_run cfg 1 (led_rainbow 2 steps, s, []) =
       ([For (map (\<lambda>i. [Led_hsv i steps, Sleep]) [0..<steps]), Led_off], s, []))"
  by (simp add: effect_defs eval_nat_numeral for_stopped Let_def
      guarded_set_servo_angle_def call_def)

lemma row_rainbow_enter:
  "(\<not> STOP_ALL s \<longrightarrow>
      thread_run cfg 1 (led_rainbow 1 (Suc steps'), s, []) =
       ([Led_hsv 0 (Suc steps'), Sleep,
         For (map (\<lambda>i. [Led_hsv i (Suc steps'), Sleep]) [Suc 0..<Suc steps']), Led_off], s, []))"
  by (simp add: led_rainbow_def upt_conv_Cons del: upt_Suc)

lemma row_demo1_start:
  "thread_run cfg 5 (preset_body ''demo1'', s, []) =
       (For (map demo1_iteration [0..<4]) # [Pt_to (Some 90) (Some 90), Set_cmd ''reset'', Sleep, Spawn (led_breathe 0 200 255 1), Clear_preset],
        s\<lparr>hw := hw s @ [Color_wipe 0 200 255], current_cmd := Some ''raise''\<rparr>, [buzzer_pulse])"
  by (simp add: effect_defs eval_nat_numeral for_stopped Let_def
      guarded_set_servo_angle_def call_def)

lemma row_demo2_start:
  "thread_run cfg 5 (preset_body ''demo2'', s, []) =
       (For (replicate 3 demo2_iteration) # [Set_cmd ''reset'', Sleep, Spawn (led_breathe 255 50 50 1), Clear_preset],
        s\<lparr>hw := hw s @ [Color_wipe 255 50 50], current_cmd := Some ''tabletop''\<rparr>, [buzzer_pulse])"
  by (simp add: effect_defs eval_nat_numeral for_stopped Let_def
      guarded_set_servo_angle_def call_def)

lemma row_demo3_start:
  "thread_run cfg 5 (preset_body ''demo3'', s, []) =
       (For (map (\<lambda>cmd. [Set_cmd cmd, Sleep]) [''fwd'', ''right'', ''back'', ''left'', ''turn_left'', ''turn_right''])
          # For (replicate 3 [Spawn buzzer_pulse, Sleep]) # [Set_cmd ''reset'', Sleep, Led_off, Clear_preset],
        s\<lparr>current_cmd := Some ''raise''\<rparr>, [buzzer_pulse, led_rainbow 1 60])"
  by (simp add: effect_defs eval_nat_numeral for_stopped Let_def
      guarded_set_servo_angle_def call_def)

lemma row_demo1_skip:
  "(STOP_ALL s \<longrightarrow>
      thread_run cfg 8 (For its # [Pt_to (Some 90) (Some 90), Set_cmd ''reset'', Sleep, Spawn (led_breathe 0 200 255 1), Clear_preset], s, []) =
       ([], s\<lparr>pan_angle := clamp 90 (PAN_MIN cfg) (PAN_MAX cfg), tilt_angle := clamp 90 (TILT_MIN cfg) (TILT_MAX cfg), current_cmd := Some ''reset'', active_preset := None\<rparr>,
        [led_breathe 0 200 255 1]))"
  by (simp add: effect_defs eval_nat_numeral for_stopped Let_def
      guarded_set_servo_angle_def call_def)

lemma row_demo1_enter:
  "(\<not> STOP_ALL s \<longrightarrow>
      thread_run cfg 1 (For (map demo1_iteration [0..<4]) # [Pt_to (Some 90) (Some 90), Set_cmd ''reset'', Sleep, Spawn (led_breathe 0 200 255 1), Clear_preset], s, []) =
       (demo1_iteration 0 @ For (map demo1_iteration [1..<4]) # [Pt_to (Some 90) (Some 90), Set_cmd ''reset'', Sleep, Spawn (led_breathe 0 200 255 1), Clear_preset], s, []))"
  by (simp add: effect_defs eval_nat_numeral for_stopped Let_def
      guarded_set_servo_angle_def call_def)

lemma row_demo1_begun:
  "(STOP_ALL s \<longrightarrow>
      thread_run cfg 19 (demo1_iteration 1 @ For its # [Pt_to (Some 90) (Some 90), Set_cmd ''reset'', Sleep, Spawn (led_breathe 0 200 255 1), Clear_preset], s, []) =
       ([], s\<lparr>pan_angle := clamp 90 (PAN_MIN cfg) (PAN_MAX cfg), tilt_angle := clamp 90 (TILT_MIN cfg) (TILT_MAX cfg), current_cmd := Some ''reset'', active_preset := None\<rparr>,
        [buzzer_pulse, led_breathe 0 200 255 1]))"
  by (simp add: effect_defs eval_nat_numeral for_stopped Let_def
      guarded_set_servo_angle_def call_def)

lemma row_demo2_skip:
  "(STOP_ALL s \<longrightarrow>
      thread_run cfg 5 (For its # [Set_cmd ''reset'', Sleep, Spawn (led_breathe 255 50 50 1), Clear_preset], s, []) =
       ([], s\<lparr>current_cmd := Some ''reset'', active_preset := None\<rparr>,
        [led_breathe 255 50 50 1]))"
  by (simp add: effect_defs eval_nat_numeral for_stopped Let_def
      guarded_set_servo_angle_def call_def)

lemma row_demo2_enter:
  "(\<not> STOP_ALL s \<longrightarrow>
      thread_run cfg 1 (For (replicate 3 demo2_iteration) # [Set_cmd ''reset'', Sleep, Spawn (led_breathe 255 50 50 1), Clear_preset], s, []) =
       (demo2_iteration @ For (replicate 2 demo2_iteration) # [Set_cmd ''reset'', Sleep, Spawn (led_breathe 255 50 50 1), Clear_preset], s, []))"
  by (simp add: effect_defs eval_nat_numeral for_stopped Let_def
      guarded_set_servo_angle_def call_def)

lemma row_demo2_begun:
  "(STOP_ALL s \<longrightarrow>
      thread_run cfg 9 (demo2_iteration @ For its # [Set_cmd ''reset'', Sleep, Spawn (led_breathe 255 50 50 1), Clear_preset], s, []) =
       ([], s\<lparr>current_cmd := Some ''reset'', active_preset := None\<rparr>,
        [buzzer_pulse, led_breathe 255 50 50 1]))"
  by (simp add: effect_defs eval_nat_numeral for_stopped Let_def
      guarded_set_servo_angle_def call_def)

lemma row_demo2_inner:
  "(\<not> STOP_ALL s \<longrightarrow>
      thread_run cfg 3 (demo2_iteration @ k, s, []) =
       ([Pt_to (Some 60) None, Sleep,
         For (map (\<lambda>p. [Pt_to (Some p) None, Sleep]) [120, 90]), Spawn buzzer_pulse] @ k,
        s\<lparr>current_cmd := Some ''turn_left''\<rparr>, []))"
  by (simp add: effect_defs eval_nat_numeral for_stopped Let_def
      guarded_set_servo_angle_def call_def)

lemma row_demo3_skip_first:
  "(STOP_ALL s \<longrightarrow>
      thread_run cfg 1 (For its # For its' # [Set_cmd ''reset'', Sleep, Led_off, Clear_preset], s, []) = (For its' # [Set_cmd ''reset'', Sleep, Led_off, Clear_preset], s, []))"
  by (simp add: effect_defs eval_nat_numeral for_stopped Let_def
      guarded_set_servo_angle_def call_def)

lemma row_demo3_skip_second:
  "(STOP_ALL s \<longrightarrow>
      thread_run cfg 2 (For its # For its' # [Set_cmd ''reset'', Sleep, Led_off, Clear_preset], s, []) = ([Set_cmd ''reset'', Sleep, Led_off, Clear_preset], s, []))"
  by (simp add: effect_defs eval_nat_numeral for_stopped Let_def
      guarded_set_servo_angle_def call_def)

lemma row_demo3_skip:
  "(STOP_ALL s \<longrightarrow>
      thread_run cfg 6 (For its # For its' # [Set_cmd ''reset'', Sleep, Led_off, Clear_preset], s, []) =
       ([], s\<lparr>hw := hw s @ [Color_wipe 0 0 0], current_cmd := Some ''reset'', active_preset := None\<rparr>, []))"
  by (simp add: effect_defs eval_nat_numeral for_stopped Let_def
      guarded_set_servo_angle_def call_def)

lemma row_demo3_enter:
  "(\<not> STOP_ALL s \<longrightarrow>
      thread_run cfg 1 (For (map (\<lambda>cmd. [Set_cmd cmd, Sleep]) [''fwd'', ''right'', ''back'', ''left'', ''turn_left'', ''turn_right''])
          # For (replicate 3 [Spawn buzzer_pulse, Sleep]) # [Set_cmd ''reset'', Sleep, Led_off, Clear_preset], s, []) =
       ([Set_cmd ''fwd'', Sleep,
         For (map (\<lambda>cmd. [Set_cmd cmd, Sleep]) [''right'', ''back'', ''left'', ''turn_left'', ''turn_right'']),
         For (replicate 3 [Spawn buzzer_pulse, Sleep])] @ [Set_cmd ''reset'', Sleep, Led_off, Clear_preset], s, []))"
  by (simp add: effect_defs eval_nat_numeral for_stopped Let_def
      guarded_set_servo_angle_def call_def)

lemma row_demo3_enter_second:
  "(\<not> STOP_ALL s \<longrightarrow>
      thread_run cfg 1 (For (replicate 3 [Spawn buzzer_pulse, Sleep]) # [Set_cmd ''reset'', Sleep, Led_off, Clear_preset], s, []) =
       ([Spawn buzzer_pulse, Sleep, For (replicate 2 [Spawn buzzer_pulse, Sleep])] @ [Set_cmd ''reset'', Sleep, Led_off, Clear_preset], s, []))"
  by (simp add: effect_defs eval_nat_numeral for_stopped Let_def
      guarded_set_servo_angle_def call_def)

lemma row_stopall_preset:
  "(\<not> fails Relax \<longrightarrow>
      active_preset (fst (stopall_route fails s)) = None)"
  by (simp add: stopall_route_fields)

lemma row_stays_stopped:
  "(STOP_ALL s \<and> thread_run cfg m (kk, s, sp) = (kk', s', sp') \<longrightarrow>
      STOP_ALL s' \<and> servo_writes (hw s') = servo_writes (hw s))"
  using thread_run_stopped[of s cfg m kk sp "kk'" "s'" "sp'"] by simp

text \<open>
  C8 (as amended): a loop with an \<^verbatim>\<open>if STOP_ALL: break\<close> head tests the flag once at
  the start of each iteration: with the flag set the loop is left, with it clear the
  next iteration is entered; between the statements of an iteration, and outside the
  loops, nothing is tested. Every loop of \<^verbatim>\<open>led_blink\<close>, \<^verbatim>\<open>led_breathe\<close> (outer and
  inner), \<^verbatim>\<open>led_police\<close>, \<^verbatim>\<open>demo1\<close>, \<^verbatim>\<open>demo2\<close> (outer and inner) and \<^verbatim>\<open>demo3\<close> (both) has
  such a head, and so has the inner loop of \<^verbatim>\<open>led_rainbow\<close>; the outer loop of
  \<^verbatim>\<open>led_rainbow\<close> has none. With the flag set: an iteration already begun runs to its
  end; \<^verbatim>\<open>led_blink\<close> ends without an LED-off call of its own, the other three LED
  effects end with one; the first five statements of a preset run untested; a preset
  leaves its loops and still runs what follows them (for \<^verbatim>\<open>demo1\<close> the angles 90 are
  stored and the servo writes dropped), writes \<^verbatim>\<open>reset\<close> into the slot and clears
  \<^verbatim>\<open>active_preset\<close>. StopAll clears \<^verbatim>\<open>active_preset\<close> itself when \<^verbatim>\<open>relax()\<close> returns.
  However long a thread runs while the flag is set, the flag stays set and no servo
  write reaches the hardware.
\<close>

theorem effects_poll_stop_at_loop_heads:
  "(STOP_ALL s \<longrightarrow>
      thread_step cfg (For bodies # k) s = (k, s, [])) \<and>
   (\<not> STOP_ALL s \<longrightarrow>
      thread_step cfg (For (body # rest) # k) s = (body @ For rest # k, s, [])) \<and>
   (\<not> STOP_ALL s \<longrightarrow>
      thread_run cfg 1 (led_blink r g b (Suc n), s, []) =
       ([Led_solid r g b, Sleep, Led_off, Sleep] @ [For (replicate n [Led_solid r g b, Sleep, Led_off, Sleep])], s, [])) \<and>
   (STOP_ALL s \<longrightarrow>
      thread_run cfg 1 (led_blink r g b n, s, []) = ([], s, [])) \<and>
   (STOP_ALL s \<longrightarrow>
      thread_run cfg 5 ([Led_solid r g b, Sleep, Led_off, Sleep] @ [For (replicate n [Led_solid r g b, Sleep, Led_off, Sleep])], s, []) =
       ([], s\<lparr>hw := hw s @ [Color_wipe r g b, Color_wipe 0 0 0]\<rparr>, [])) \<and>
   (STOP_ALL s \<longrightarrow>
      thread_run cfg 2 (led_breathe r g b n, s, []) = ([], s\<lparr>hw := hw s @ [Color_wipe 0 0 0]\<rparr>, [])) \<and>
   (\<not> STOP_ALL s \<longrightarrow>
      thread_run cfg 2 (led_breathe r g b (Suc n), s, []) =
       ([Led_scaled r g b 0, Sleep, For (map (\<lambda>lvl. [Led_scaled r g b lvl, Sleep]) (tl ([0..<21] @ rev [0..<21]))),
         For (replicate n [For (map (\<lambda>lvl. [Led_scaled r g b lvl, Sleep]) ([0..<21] @ rev [0..<21]))]), Led_off], s, [])) \<and>
   (STOP_ALL s \<longrightarrow>
      thread_run cfg 5 ([Led_scaled r g b 0, Sleep, For (map (\<lambda>lvl. [Led_scaled r g b lvl, Sleep]) (tl ([0..<21] @ rev [0..<21]))),
         For (replicate n [For (map (\<lambda>lvl. [Led_scaled r g b lvl, Sleep]) ([0..<21] @ rev [0..<21]))]), Led_off], s, []) =
       ([], s\<lparr>hw := hw s @ [Color_wipe_scaled r g b 0, Color_wipe 0 0 0]\<rparr>, [])) \<and>
   (STOP_ALL s \<longrightarrow>
      thread_run cfg 2 (led_police n, s, []) = ([], s\<lparr>hw := hw s @ [Color_wipe 0 0 0]\<rparr>, [])) \<and>
   (\<not> STOP_ALL s \<longrightarrow>
      thread_run cfg 1 (led_police (Suc n), s, []) =
       ([Led_solid 255 0 0, Sleep, Led_off, Sleep, Led_solid 0 0 255, Sleep, Led_off, Sleep] @ [For (replicate n [Led_solid 255 0 0, Sleep, Led_off, Sleep, Led_solid 0 0 255, Sleep, Led_off, Sleep]), Led_off], s, [])) \<and>
   (STOP_ALL s \<longrightarrow>
      thread_run cfg 10 ([Led_solid 255 0 0, Sleep, Led_off, Sleep, Led_solid 0 0 255, Sleep, Led_off, Sleep] @ [For (replicate n [Led_solid 255 0 0, Sleep, Led_off, Sleep, Led_solid 0 0 255, Sleep, Led_off, Sleep]), Led_off], s, []) =
       ([], s\<lparr>hw := hw s @ [Color_wipe 255 0 0, Color_wipe 0 0 0, Color_wipe 0 0 255, Color_wipe 0 0 0, Color_wipe 0 0 0]\<rparr>, [])) \<and>
   (STOP_ALL s \<longrightarrow>
      thread_run cfg 2 (led_rainbow 1 steps, s, []) = ([], s\<lparr>hw := hw s @ [Color_wipe 0 0 0]\<rparr>, [])) \<and>
   (STOP_ALL s \<longrightarrow>
      thread_run cfg 1 (led_rainbow 2 steps, s, []) =
       ([For (map (\<lambda>i. [Led_hsv i steps, Sleep]) [0..<steps]), Led_off], s, [])) \<and>
   (\<not> STOP_ALL s \<longrightarrow>
      thread_run cfg 1 (led_rainbow 1 (Suc steps'), s, []) =
       ([Led_hsv 0 (Suc steps'), Sleep,
         For (map (\<lambda>i. [Led_hsv i (Suc steps'), Sleep]) [Suc 0..<Suc steps']), Led_off], s, [])) \<and>
   thread_run cfg 5 (preset_body ''demo1'', s, []) =
       (For (map demo1_iteration [0..<4]) # [Pt_to (Some 90) (Some 90), Set_cmd ''reset'', Sleep, Spawn (led_breathe 0 200 255 1), Clear_preset],
        s\<lparr>hw := hw s @ [Color_wipe 0 200 255], current_cmd := Some ''raise''\<rparr>, [buzzer_pulse]) \<and>
   thread_run cfg 5 (preset_body ''demo2'', s, []) =
       (For (replicate 3 demo2_iteration) # [Set_cmd ''reset'', Sleep, Spawn (led_breathe 255 50 50 1), Clear_preset],
        s\<lparr>hw := hw s @ [Color_wipe 255 50 50], current_cmd := Some ''tabletop''\<rparr>, [buzzer_pulse]) \<and>
   thread_run cfg 5 (preset_body ''demo3'', s, []) =
       (For (map (\<lambda>cmd. [Set_cmd cmd, Sleep]) [''fwd'', ''right'', ''back'', ''left'', ''turn_left'', ''turn_right''])
          # For (replicate 3 [Spawn buzzer_pulse, Sleep]) # [Set_cmd ''reset'', Sleep, Led_off, Clear_preset],
        s\<lparr>current_cmd := Some ''raise''\<rparr>, [buzzer_pulse, led_rainbow 1 60]) \<and>
   (STOP_ALL s \<longrightarrow>
      thread_run cfg 8 (For its # [Pt_to (Some 90) (Some 90), Set_cmd ''reset'', Sleep, Spawn (led_breathe 0 200 255 1), Clear_preset], s, []) =
       ([], s\<lparr>pan_angle := clamp 90 (PAN_MIN cfg) (PAN_MAX cfg), tilt_angle := clamp 90 (TILT_MIN cfg) (TILT_MAX cfg), current_cmd := Some ''reset'', active_preset := None\<rparr>,
        [led_breathe 0 200 255 1])) \<and>
   (\<not> STOP_ALL s \<longrightarrow>
      thread_run cfg 1 (For (map demo1_iteration [0..<4]) # [Pt_to (Some 90) (Some 90), Set_cmd ''reset'', Sleep, Spawn (led_breathe 0 200 255 1), Clear_preset], s, []) =
       (demo1_iteration 0 @ For (map demo1_iteration [1..<4]) # [Pt_to (Some 90) (Some 90), Set_cmd ''reset'', Sleep, Spawn (led_breathe 0 200 255 1), Clear_preset], s, [])) \<and>
   (STOP_ALL s \<longrightarrow>
      thread_run cfg 19 (demo1_iteration 1 @ For its # [Pt_to (Some 90) (Some 90), Set_cmd ''reset'', Sleep, Spawn (led_breathe 0 200 255 1), Clear_preset], s, []) =
       ([], s\<lparr>pan_angle := clamp 90 (PAN_MIN cfg) (PAN_MAX cfg), tilt_angle := clamp 90 (TILT_MIN cfg) (TILT_MAX cfg), current_cmd := Some ''reset'', active_preset := None\<rparr>,
        [buzzer_pulse, led_breathe 0 200 255 1])) \<and>
   (STOP_ALL s \<longrightarrow>
      thread_run cfg 5 (For its # [Set_cmd ''reset'', Sleep, Spawn (led_breathe 255 50 50 1), Clear_preset], s, []) =
       ([], s\<lparr>current_cmd := Some ''reset'', active_preset := None\<rparr>,
        [led_breathe 255 50 50 1])) \<and>
   (\<not> STOP_ALL s \<longrightarrow>
      thread_run cfg 1 (For (replicate 3 demo2_iteration) # [Set_cmd ''reset'', Sleep, Spawn (led_breathe 255 50 50 1), Clear_preset], s, []) =
       (demo2_iteration @ For (replicate 2 demo2_iteration) # [Set_cmd ''reset'', Sleep, Spawn (led_breathe 255 50 50 1), Clear_preset], s, [])) \<and>
   (STOP_ALL s \<longrightarrow>
      thread_run cfg 9 (demo2_iteration @ For its # [Set_cmd ''reset'', Sleep, Spawn (led_breathe 255 50 50 1), Clear_preset], s, []) =
       ([], s\<lparr>current_cmd := Some ''reset'', active_preset := None\<rparr>,
        [buzzer_pulse, led_breathe 255 50 50 1])) \<and>
   (\<not> STOP_ALL s \<longrightarrow>
      thread_run cfg 3 (demo2_iteration @ k, s, []) =
       ([Pt_to (Some 60) None, Sleep,
         For (map (\<lambda>p. [Pt_to (Some p) None, Sleep]) [120, 90]), Spawn buzzer_pulse] @ k,
        s\<lparr>current_cmd := Some ''turn_left''\<rparr>, [])) \<and>
   (STOP_ALL s \<longrightarrow>
      thread_run cfg 1 (For its # For its' # [Set_cmd ''reset'', Sleep, Led_off, Clear_preset], s, []) = (For its' # [Set_cmd ''reset'', Sleep, Led_off, Clear_preset], s, [])) \<and>
   (STOP_ALL s \<longrightarrow>
      thread_run cfg 2 (For its # For its' # [Set_cmd ''reset'', Sleep, Led_off, Clear_preset], s, []) = ([Set_cmd ''reset'', Sleep, Led_off, Clear_preset], s, [])) \<and>
   (STOP_ALL s \<longrightarrow>
      thread_run cfg 6 (For its # For its' # [Set_cmd ''reset'', Sleep, Led_off, Clear_preset], s, []) =
       ([], s\<lparr>hw := hw s @ [Color_wipe 0 0 0], current_cmd := Some ''reset'', active_preset := None\<rparr>, [])) \<and>
   (\<not> STOP_ALL s \<longrightarrow>
      thread_run cfg 1 (For (map (\<lambda>cmd. [Set_cmd cmd, Sleep]) [''fwd'', ''right'', ''back'', ''left'', ''turn_left'', ''turn_right''])
          # For (replicate 3 [Spawn buzzer_pulse, Sleep]) # [Set_cmd ''reset'', Sleep, Led_off, Clear_preset], s, []) =
       ([Set_cmd ''fwd'', Sleep,
         For (map (\<lambda>cmd. [Set_cmd cmd, Sleep]) [''right'', ''back'', ''left'', ''turn_left'', ''turn_right'']),
         For (replicate 3 [Spawn buzzer_pulse, Sleep])] @ [Set_cmd ''reset'', Sleep, Led_off, Clear_preset], s, [])) \<and>
   (\<not> STOP_ALL s \<longrightarrow>
      thread_run cfg 1 (For (replicate 3 [Spawn buzzer_pulse, Sleep]) # [Set_cmd ''reset'', Sleep, Led_off, Clear_preset], s, []) =
       ([Spawn buzzer_pulse, Sleep, For (replicate 2 [Spawn buzzer_pulse, Sleep])] @ [Set_cmd ''reset'', Sleep, Led_off, Clear_preset], s, [])) \<and>
   (\<not> fails Relax \<longrightarrow>
      active_preset (fst (stopall_route fails s)) = None) \<and>
   (STOP_ALL s \<and> thread_run cfg m (kk, s, sp) = (kk', s', sp') \<longrightarrow>
      STOP_ALL s' \<and> servo_writes (hw s') = servo_writes (hw s))"
  apply (intro conjI)
  apply (rule row_loop_skip)
  apply (rule row_loop_enter)
  apply (rule row_blink_enter)
  apply (rule row_blink_skip)
  apply (rule row_blink_begun)
  apply (rule row_breathe_skip)
  apply (rule row_breathe_enter)
  apply (rule row_breathe_begun)
  apply (rule row_police_skip)
  apply (rule row_police_enter)
  apply (rule row_police_begun)
  apply (rule row_rainbow_skip)
  apply (rule row_rainbow_outer)
  apply (rule row_rainbow_enter)
  apply (rule row_demo1_start)
  apply (rule row_demo2_start)
  apply (rule row_demo3_start)
  apply (rule row_demo1_skip)
  apply (rule row_demo1_enter)
  apply (rule row_demo1_begun)
  apply (rule row_demo2_skip)
  apply (rule row_demo2_enter)
  apply (rule row_demo2_begun)
  apply (rule row_demo2_inner)
  apply (rule row_demo3_skip_first)
  apply (rule row_demo3_skip_second)
  apply (rule row_demo3_skip)
  apply (rule row_demo3_enter)
  apply (rule row_demo3_enter_second)
  apply (rule row_stopall_preset)
  apply (rule row_stays_stopped)
  done

text \<open>
  C8 as stated fails: \<^verbatim>\<open>demo1\<close> has passed the loop test of its second iteration when
  StopAll runs. Its next statement writes \<^verbatim>\<open>fwd\<close> into the slot that StopAll has just
  emptied, the iteration runs to its end and starts a buzzer pulse, and the log shows,
  after the \<^verbatim>\<open>relax()\<close> of StopAll, the buzzer switched on and off and then the LEDs
  switched off by \<^verbatim>\<open>led_breathe\<close>.
\<close>

theorem preset_continues_after_stop_counterexample:
  "current_cmd (shared (run default_config no_failure (init_system default_config)
      ([Preset ''demo1''] @ replicate 17 (Thread_step 0) @ [Stopall]))) = None \<and>
   current_cmd (shared (run default_config no_failure (init_system default_config)
      ([Preset ''demo1''] @ replicate 17 (Thread_step 0) @ [Stopall, Thread_step 0]))) = Some ''fwd'' \<and>
   hw (shared (run default_config no_failure (init_system default_config)
      ([Preset ''demo1''] @ replicate 17 (Thread_step 0) @ [Stopall]
        @ replicate 19 (Thread_step 0) @ replicate 3 (Thread_step 2) @ replicate 2 (Thread_step 3))))
   = [Move_position 0 0 15, Set_servo_angle 24 90, Set_servo_angle 25 90,
      Color_wipe 0 200 255, Set_servo_angle 24 60, Set_servo_angle 25 90,
      Set_servo_angle 24 120, Set_servo_angle 25 90,
      Relax, Buzzer_set_state True, Buzzer_set_state False, Color_wipe 0 0 0]"
  by code_simp

theorem effects_poll_stop_at_loop_heads_witness:
  "(thread_step default_config (For [[Sleep]] # [Clear_preset]) (fst (stopall_route no_failure (init_state default_config))) = ([Clear_preset], (fst (stopall_route no_failure (init_state default_config))), [])) \<and>
   (thread_step default_config (For ([Sleep] # [[Led_off]]) # [Clear_preset]) (init_state default_config) = ([Sleep] @ For [[Led_off]] # [Clear_preset], (init_state default_config), [])) \<and>
   (thread_run default_config 1 (led_blink 255 0 0 (Suc 2), (init_state default_config), []) =
       ([Led_solid 255 0 0, Sleep, Led_off, Sleep] @ [For (replicate 2 [Led_solid 255 0 0, Sleep, Led_off, Sleep])], (init_state default_config), [])) \<and>
   (thread_run default_config 1 (led_blink 255 0 0 2, (fst (stopall_route no_failure (init_state default_config))), []) = ([], (fst (stopall_route no_failure (init_state default_config))), [])) \<and>
   (thread_run default_config 5 ([Led_solid 255 0 0, Sleep, Led_off, Sleep] @ [For (replicate 2 [Led_solid 255 0 0, Sleep, Led_off, Sleep])], (fst (stopall_route no_failure (init_state default_config))), []) =
       ([], (fst (stopall_route no_failure (init_state default_config)))\<lparr>hw := hw (fst (stopall_route no_failure (init_state default_config))) @ [Color_wipe 255 0 0, Color_wipe 0 0 0]\<rparr>, [])) \<and>
   (thread_run default_config 2 (led_breathe 255 0 0 2, (fst (stopall_route no_failure (init_state default_config))), []) = ([], (fst (stopall_route no_failure (init_state default_config)))\<lparr>hw := hw (fst (stopall_route no_failure (init_state default_config))) @ [Color_wipe 0 0 0]\<rparr>, [])) \<and>
   (thread_run default_config 2 (led_breathe 255 0 0 (Suc 2), (init_state default_config), []) =
       ([Led_scaled 255 0 0 0, Sleep, For (map (\<lambda>lvl. [Led_scaled 255 0 0 lvl, Sleep]) (tl ([0..<21] @ rev [0..<21]))),
         For (replicate 2 [For (map (\<lambda>lvl. [Led_scaled 255 0 0 lvl, Sleep]) ([0..<21] @ rev [0..<21]))]), Led_off], (init_state default_config), [])) \<and>
   (thread_run default_config 5 ([Led_scaled 255 0 0 0, Sleep, For (map (\<lambda>lvl. [Led_scaled 255 0 0 lvl, Sleep]) (tl ([0..<21] @ rev [0..<21]))),
         For (replicate 2 [For (map (\<lambda>lvl. [Led_scaled 255 0 0 lvl, Sleep]) ([0..<21] @ rev [0..<21]))]), Led_off], (fst (stopall_route no_failure (init_state default_config))), []) =
       ([], (fst (stopall_route no_failure (init_state default_config)))\<lparr>hw := hw (fst (stopall_route no_failure (init_state default_config))) @ [Color_wipe_scaled 255 0 0 0, Color_wipe 0 0 0]\<rparr>, [])) \<and>
   (thread_run default_config 2 (led_police 2, (fst (stopall_route no_failure (init_state default_config))), []) = ([], (fst (stopall_route no_failure (init_state default_config)))\<lparr>hw := hw (fst (stopall_route no_failure (init_state default_config))) @ [Color_wipe 0 0 0]\<rparr>, [])) \<and>
   (thread_run default_config 1 (led_police (Suc 2), (init_state default_config), []) =
       ([Led_solid 255 0 0, Sleep, Led_off, Sleep, Led_solid 0 0 255, Sleep, Led_off, Sleep] @ [For (replicate 2 [Led_solid 255 0 0, Sleep, Led_off, Sleep, Led_solid 0 0 255, Sleep, Led_off, Sleep]), Led_off], (init_state default_config), [])) \<and>
   (thread_run default_config 10 ([Led_solid 255 0 0, Sleep, Led_off, Sleep, Led_solid 0 0 255, Sleep, Led_off, Sleep] @ [For (replicate 2 [Led_solid 255 0 0, Sleep, Led_off, Sleep, Led_solid 0 0 255, Sleep, Led_off, Sleep]), Led_off], (fst (stopall_route no_failure (init_state default_config))), []) =
       ([], (fst (stopall_route no_failure (init_state default_config)))\<lparr>hw := hw (fst (stopall_route no_failure (init_state default_config))) @ [Color_wipe 255 0 0, Color_wipe 0 0 0, Color_wipe 0 0 255, Color_wipe 0 0 0, Color_wipe 0 0 0]\<rparr>, [])) \<and>
   (thread_run default_config 2 (led_rainbow 1 60, (fst (stopall_route no_failure (init_state default_config))), []) = ([], (fst (stopall_route no_failure (init_state default_config)))\<lparr>hw := hw (fst (stopall_route no_failure (init_state default_config))) @ [Color_wipe 0 0 0]\<rparr>, [])) \<and>
   (thread_run default_config 1 (led_rainbow 2 60, (fst (stopall_route no_failure (init_state default_config))), []) =
       ([For (map (\<lambda>i. [Led_hsv i 60, Sleep]) [0..<60]), Led_off], (fst (stopall_route no_failure (init_state default_config))), [])) \<and>
   (thread_run default_config 1 (led_rainbow 1 (Suc 59), (init_state default_config), []) =
       ([Led_hsv 0 (Suc 59), Sleep,
         For (map (\<lambda>i. [Led_hsv i (Suc 59), Sleep]) [Suc 0..<Suc 59]), Led_off], (init_state default_config), [])) \<and>
   (thread_run default_config 5 (preset_body ''demo1'', (init_state default_config), []) =
       (For (map demo1_iteration [0..<4]) # [Pt_to (Some 90) (Some 90), Set_cmd ''reset'', Sleep, Spawn (led_breathe 0 200 255 1), Clear_preset],
        (init_state default_config)\<lparr>hw := hw (init_state default_config) @ [Color_wipe 0 200 255], current_cmd := Some ''raise''\<rparr>, [buzzer_pulse])) \<and>
   (thread_run default_config 5 (preset_body ''demo2'', (init_state default_config), []) =
       (For (replicate 3 demo2_iteration) # [Set_cmd ''reset'', Sleep, Spawn (led_breathe 255 50 50 1), Clear_preset],
        (init_state default_config)\<lparr>hw := hw (init_state default_config) @ [Color_wipe 255 50 50], current_cmd := Some ''tabletop''\<rparr>, [buzzer_pulse])) \<and>
   (thread_run default_config 5 (preset_body ''demo3'', (init_state default_config), []) =
       (For (map (\<lambda>cmd. [Set_cmd cmd, Sleep]) [''fwd'', ''right'', ''back'', ''left'', ''turn_left'', ''turn_right''])
          # For (replicate 3 [Spawn buzzer_pulse, Sleep]) # [Set_cmd ''reset'', Sleep, Led_off, Clear_preset],
        (init_state default_config)\<lparr>current_cmd := Some ''raise''\<rparr>, [buzzer_pulse, led_rainbow 1 60])) \<and>
   (thread_run default_config 8 (For [[Sleep]] # [Pt_to (Some 90) (Some 90), Set_cmd ''reset'', Sleep, Spawn (led_breathe 0 200 255 1), Clear_preset], (fst (stopall_route no_failure (init_state default_config))), []) =
       ([], (fst (stopall_route no_failure (init_state default_config)))\<lparr>pan_angle := clamp 90 (PAN_MIN default_config) (PAN_MAX default_config), tilt_angle := clamp 90 (TILT_MIN default_config) (TILT_MAX default_config), current_cmd := Some ''reset'', active_preset := None\<rparr>,
        [led_breathe 0 200 255 1])) \<and>
   (thread_run default_config 1 (For (map demo1_iteration [0..<4]) # [Pt_to (Some 90) (Some 90), Set_cmd ''reset'', Sleep, Spawn (led_breathe 0 200 255 1), Clear_preset], (init_state default_config), []) =
       (demo1_iteration 0 @ For (map demo1_iteration [1..<4]) # [Pt_to (Some 90) (Some 90), Set_cmd ''reset'', Sleep, Spawn (led_breathe 0 200 255 1), Clear_preset], (init_state default_config), [])) \<and>
   (thread_run default_config 19 (demo1_iteration 1 @ For [[Sleep]] # [Pt_to (Some 90) (Some 90), Set_cmd ''reset'', Sleep, Spawn (led_breathe 0 200 255 1), Clear_preset], (fst (stopall_route no_failure (init_state default_config))), []) =
       ([], (fst (stopall_route no_failure (init_state default_config)))\<lparr>pan_angle := clamp 90 (PAN_MIN default_config) (PAN_MAX default_config), tilt_angle := clamp 90 (TILT_MIN default_config) (TILT_MAX default_config), current_cmd := Some ''reset'', active_preset := None\<rparr>,
        [buzzer_pulse, led_breathe 0 200 255 1])) \<and>
   (thread_run default_config 5 (For [[Sleep]] # [Set_cmd ''reset'', Sleep, Spawn (led_breathe 255 50 50 1), Clear_preset], (fst (stopall_route no_failure (init_state default_config))), []) =
       ([], (fst (stopall_route no_failure (init_state default_config)))\<lparr>current_cmd := Some ''reset'', active_preset := None\<rparr>,
        [led_breathe 255 50 50 1])) \<and>
   (thread_run default_config 1 (For (replicate 3 demo2_iteration) # [Set_cmd ''reset'', Sleep, Spawn (led_breathe 255 50 50 1), Clear_preset], (init_state default_config), []) =
       (demo2_iteration @ For (replicate 2 demo2_iteration) # [Set_cmd ''reset'', Sleep, Spawn (led_breathe 255 50 50 1), Clear_preset], (init_state default_config), [])) \<and>
   (thread_run default_config 9 (demo2_iteration @ For [[Sleep]] # [Set_cmd ''reset'', Sleep, Spawn (led_breathe 255 50 50 1), Clear_preset], (fst (stopall_route no_failure (init_state default_config))), []) =
       ([], (fst (stopall_route no_failure (init_state default_config)))\<lparr>current_cmd := Some ''reset'', active_preset := None\<rparr>,
        [buzzer_pulse, led_breathe 255 50 50 1])) \<and>
   (thread_run default_config 3 (demo2_iteration @ [Clear_preset], (init_state default_config), []) =
       ([Pt_to (Some 60) None, Sleep,
         For (map (\<lambda>p. [Pt_to (Some p) None, Sleep]) [120, 90]), Spawn buzzer_pulse] @ [Clear_preset],
        (init_state default_config)\<lparr>current_cmd := Some ''turn_left''\<rparr>, [])) \<and>
   (thread_run default_config 1 (For [[Sleep]] # For [[Led_off]] # [Set_cmd ''reset'', Sleep, Led_off, Clear_preset], (fst (stopall_route no_failure (init_state default_config))), []) = (For [[Led_off]] # [Set_cmd ''reset'', Sleep, Led_off, Clear_preset], (fst (stopall_route no_failure (init_state default_config))), [])) \<and>
   (thread_run default_config 2 (For [[Sleep]] # For [[Led_off]] # [Set_cmd ''reset'', Sleep, Led_off, Clear_preset], (fst (stopall_route no_failure (init_state default_config))), []) = ([Set_cmd ''reset'', Sleep, Led_off, Clear_preset], (fst (stopall_route no_failure (init_state default_config))), [])) \<and>
   (thread_run default_config 6 (For [[Sleep]] # For [[Led_off]] # [Set_cmd ''reset'', Sleep, Led_off, Clear_preset], (fst (stopall_route no_failure (init_state default_config))), []) =
       ([], (fst (stopall_route no_failure (init_state default_config)))\<lparr>hw := hw (fst (stopall_route no_failure (init_state default_config))) @ [Color_wipe 0 0 0], current_cmd := Some ''reset'', active_preset := None\<rparr>, [])) \<and>
   (thread_run default_config 1 (For (map (\<lambda>cmd. [Set_cmd cmd, Sleep]) [''fwd'', ''right'', ''back'', ''left'', ''turn_left'', ''turn_right''])
          # For (replicate 3 [Spawn buzzer_pulse, Sleep]) # [Set_cmd ''reset'', Sleep, Led_off, Clear_preset], (init_state default_config), []) =
       ([Set_cmd ''fwd'', Sleep,
         For (map (\<lambda>cmd. [Set_cmd cmd, Sleep]) [''right'', ''back'', ''left'', ''turn_left'', ''turn_right'']),
         For (replicate 3 [Spawn buzzer_pulse, Sleep])] @ [Set_cmd ''reset'', Sleep, Led_off, Clear_preset], (init_state default_config), [])) \<and>
   (thread_run default_config 1 (For (replicate 3 [Spawn buzzer_pulse, Sleep]) # [Set_cmd ''reset'', Sleep, Led_off, Clear_preset], (init_state default_config), []) =
       ([Spawn buzzer_pulse, Sleep, For (replicate 2 [Spawn buzzer_pulse, Sleep])] @ [Set_cmd ''reset'', Sleep, Led_off, Clear_preset], (init_state default_config), [])) \<and>
   (active_preset (fst (stopall_route no_failure (init_state default_config))) = None) \<and>
   (STOP_ALL (fst (stopall_route no_failure (init_state default_config))\<lparr>hw := hw (fst (stopall_route no_failure (init_state default_config))) @ [Color_wipe 0 0 0]\<rparr>) \<and> servo_writes (hw (fst (stopall_route no_failure (init_state default_config))\<lparr>hw := hw (fst (stopall_route no_failure (init_state default_config))) @ [Color_wipe 0 0 0]\<rparr>)) = servo_writes (hw (fst (stopall_route no_failure (init_state default_config)))))"
proof -
  note Ts = effects_poll_stop_at_loop_heads[where s = "(fst (stopall_route no_failure (init_state default_config)))" and cfg = "default_config" and r = "255" and g = "0" and b = "0" and n = "2" and steps = "60" and steps' = "59" and bodies = "[[Sleep]]" and body = "[Sleep]" and rest = "[[Led_off]]" and k = "[Clear_preset]" and its = "[[Sleep]]" and its' = "[[Led_off]]" and fails = "no_failure" and m = "2" and kk = "(led_breathe 255 0 0 2)" and sp = "[]" and kk' = "[]" and sp' = "[]" and s' = "(fst (stopall_route no_failure (init_state default_config))\<lparr>hw := hw (fst (stopall_route no_failure (init_state default_config))) @ [Color_wipe 0 0 0]\<rparr>)"]
  note Tr = effects_poll_stop_at_loop_heads[where s = "(init_state default_config)" and cfg = "default_config" and r = "255" and g = "0" and b = "0" and n = "2" and steps = "60" and steps' = "59" and bodies = "[[Sleep]]" and body = "[Sleep]" and rest = "[[Led_off]]" and k = "[Clear_preset]" and its = "[[Sleep]]" and its' = "[[Led_off]]" and fails = "no_failure" and m = "2" and kk = "(led_breathe 255 0 0 2)" and sp = "[]" and kk' = "[]" and sp' = "[]" and s' = "(fst (stopall_route no_failure (init_state default_config))\<lparr>hw := hw (fst (stopall_route no_failure (init_state default_config))) @ [Color_wipe 0 0 0]\<rparr>)"]
  have hs: "STOP_ALL (fst (stopall_route no_failure (init_state default_config)))" by code_simp
  have hr: "\<not> STOP_ALL (init_state default_config)" by code_simp
  have hf: "\<not> no_failure Relax" by code_simp
  note w1 = Ts[THEN conjunct1, THEN mp, OF hs]
  note w2 = Tr[THEN conjunct2, THEN conjunct1, THEN mp, OF hr]
  note w3 = Tr[THEN conjunct2, THEN conjunct2, THEN conjunct1, THEN mp, OF hr]
  note w4 = Ts[THEN conjunct2, THEN conjunct2, THEN conjunct2, THEN conjunct1, THEN mp, OF hs]
  note w5 = Ts[THEN conjunct2, THEN conjunct2, THEN conjunct2, THEN conjunct2, THEN conjunct1, THEN mp, OF hs]
  note w6 = Ts[THEN conjunct2, THEN conjunct2, THEN conjunct2, THEN conjunct2, THEN conjunct2, THEN conjunct1, THEN mp, OF hs]
  note w7 = Tr[THEN conjunct2, THEN conjunct2, THEN conjunct2, THEN conjunct2, THEN conjunct2, THEN conjunct2, THEN conjunct1, THEN mp, OF hr]
  note w8 = Ts[THEN conjunct2, THEN conjunct2, THEN conjunct2, THEN conjunct2, THEN conjunct2, THEN conjunct2, THEN conjunct2, THEN conjunct1, THEN mp, OF hs]
  note w9 = Ts[THEN conjunct2, THEN conjunct2, THEN conjunct2, THEN conjunct2, THEN conjunct2, THEN conjunct2, THEN conjunct2, THEN conjunct2, THEN conjunct1, THEN mp, OF hs]
  note w10 = Tr[THEN conjunct2, THEN conjunct2, THEN conjunct2, THEN conjunct2, THEN conjunct2, THEN conjunct2, THEN conjunct2, THEN conjunct2, THEN conjunct2, THEN conjunct1, THEN mp, OF hr]
  note w11 = Ts[THEN conjunct2, THEN conjunct2, THEN conjunct2, THEN conjunct2, THEN conjunct2, THEN conjunct2, THEN conjunct2, THEN conjunct2, THEN conjunct2, THEN conjunct2, THEN conjunct1, THEN mp, OF hs]
  note w12 = Ts[THEN conjunct2, THEN conjunct2, THEN conjunct2, THEN conjunct2, THEN conjunct2, THEN conjunct2, THEN conjunct2, THEN conjunct2, THEN conjunct2, THEN conjunct2, THEN conjunct2, THEN conjunct1, THEN mp, OF hs]
  note w13 = Ts[THEN conjunct2, THEN conjunct2, THEN conjunct2, THEN conjunct2, THEN conjunct2, THEN conjunct2, THEN conjunct2, THEN conjunct2, THEN conjunct2, THEN conjunct2, THEN conjunct2, THEN conjunct2, THEN conjunct1, THEN mp, OF hs]
  note w14 = Tr[THEN conjunct2, THEN conjunct2, THEN conjunct2, THEN conjunct2, THEN conjunct2, THEN conjunct2, THEN conjunct2, THEN conjunct2, THEN conjunct2, THEN conjunct2, THEN conjunct2, THEN conjunct2, THEN conjunct2, THEN conjunct1, THEN mp, OF hr]
  note w15 = Tr[THEN conjunct2, THEN conjunct2, THEN conjunct2, THEN conjunct2, THEN conjunct2, THEN conjunct2, THEN conjunct2, THEN conjunct2, THEN conjunct2, THEN conjunct2, THEN conjunct2, THEN conjunct2, THEN conjunct2, THEN conjunct2, THEN conjunct1]
  note w16 = Tr[THEN conjunct2, THEN conjunct2, THEN conjunct2, THEN conjunct2, THEN conjunct2, THEN conjunct2, THEN conjunct2, THEN conjunct2, THEN conjunct2, THEN conjunct2, THEN conjunct2, THEN conjunct2, THEN conjunct2, THEN conjunct2, THEN conjunct2, THEN conjunct1]
  note w17 = Tr[THEN conjunct2, THEN conjunct2, THEN conjunct2, THEN conjunct2, THEN conjunct2, THEN conjunct2, THEN conjunct2, THEN conjunct2, THEN conjunct2, THEN conjunct2, THEN conjunct2, THEN conjunct2, THEN conjunct2, THEN conjunct2, THEN conjunct2, THEN conjunct2, THEN conjunct1]
  note w18 = Ts[THEN conjunct2, THEN conjunct2, THEN conjunct2, THEN conjunct2, THEN conjunct2, THEN conjunct2, THEN conjunct2, THEN conjunct2, THEN conjunct2, THEN conjunct2, THEN conjunct2, THEN conjunct2, THEN conjunct2, THEN conjunct2, THEN conjunct2, THEN conjunct2, THEN conjunct2, THEN conjunct1, THEN mp, OF hs]
  note w19 = Tr[THEN conjunct2, THEN conjunct2, THEN conjunct2, THEN conjunct2, THEN conjunct2, THEN conjunct2, THEN conjunct2, THEN conjunct2, THEN conjunct2, THEN conjunct2, THEN conjunct2, THEN conjunct2, THEN conjunct2, THEN conjunct2, THEN conjunct2, THEN conjunct2, THEN conjunct2, THEN conjunct2, THEN conjunct1, THEN mp, OF hr]
  note w20 = Ts[THEN conjunct2, THEN conjunct2, THEN conjunct2, THEN conjunct2, THEN conjunct2, THEN conjunct2, THEN conjunct2, THEN conjunct2, THEN conjunct2, THEN conjunct2, THEN conjunct2, THEN conjunct2, THEN conjunct2, THEN conjunct2, THEN conjunct2, THEN conjunct2, THEN conjunct2, THEN conjunct2, THEN conjunct2, THEN conjunct1, THEN mp, OF hs]
  note w21 = Ts[THEN conjunct2, THEN conjunct2, THEN conjunct2, THEN conjunct2, THEN conjunct2, THEN conjunct2, THEN conjunct2, THEN conjunct2, THEN conjunct2, THEN conjunct2, THEN conjunct2, THEN conjunct2, THEN conjunct2, THEN conjunct2, THEN conjunct2, THEN conjunct2, THEN conjunct2, THEN conjunct2, THEN conjunct2, THEN conjunct2, THEN conjunct1, THEN mp, OF hs]
  note w22 = Tr[THEN conjunct2, THEN conjunct2, THEN conjunct2, THEN conjunct2, THEN conjunct2, THEN conjunct2, THEN conjunct2, THEN conjunct2, THEN conjunct2, THEN conjunct2, THEN conjunct2, THEN conjunct2, THEN conjunct2, THEN conjunct2, THEN conjunct2, THEN conjunct2, THEN conjunct2, THEN conjunct2, THEN conjunct2, THEN conjunct2, THEN conjunct2, THEN conjunct1, THEN mp, OF hr]
  note w23 = Ts[THEN conjunct2, THEN conjunct2, THEN conjunct2, THEN conjunct2, THEN conjunct2, THEN conjunct2, THEN conjunct2, THEN conjunct2, THEN conjunct2, THEN conjunct2, THEN conjunct2, THEN conjunct2, THEN conjunct2, THEN conjunct2, THEN conjunct2, THEN conjunct2, THEN conjunct2, THEN conjunct2, THEN conjunct2, THEN conjunct2, THEN conjunct2, THEN conjunct2, THEN conjunct1, THEN mp, OF hs]
  note w24 = Tr[THEN conjunct2, THEN conjunct2, THEN conjunct2, THEN conjunct2, THEN conjunct2, THEN conjunct2, THEN conjunct2, THEN conjunct2, THEN conjunct2, THEN conjunct2, THEN conjunct2, THEN conjunct2, THEN conjunct2, THEN conjunct2, THEN conjunct2, THEN conjunct2, THEN conjunct2, THEN conjunct2, THEN conjunct2, THEN conjunct2, THEN conjunct2, THEN conjunct2, THEN conjunct2, THEN conjunct1, THEN mp, OF hr]
  note w25 = Ts[THEN conjunct2, THEN conjunct2, THEN conjunct2, THEN conjunct2, THEN conjunct2, THEN conjunct2, THEN conjunct2, THEN conjunct2, THEN conjunct2, THEN conjunct2, THEN conjunct2, THEN conjunct2, THEN conjunct2, THEN conjunct2, THEN conjunct2, THEN conjunct2, THEN conjunct2, THEN conjunct2, THEN conjunct2, THEN conjunct2, THEN conjunct2, THEN conjunct2, THEN conjunct2, THEN conjunct2, THEN conjunct1, THEN mp, OF hs]
  note w26 = Ts[THEN conjunct2, THEN conjunct2, THEN conjunct2, THEN conjunct2, THEN conjunct2, THEN conjunct2, THEN conjunct2, THEN conjunct2, THEN conjunct2, THEN conjunct2, THEN conjunct2, THEN conjunct2, THEN conjunct2, THEN conjunct2, THEN conjunct2, THEN conjunct2, THEN conjunct2, THEN conjunct2, THEN conjunct2, THEN conjunct2, THEN conjunct2, THEN conjunct2, THEN conjunct2, THEN conjunct2, THEN conjunct2, THEN conjunct1, THEN mp, OF hs]
  note w27 = Ts[THEN conjunct2, THEN conjunct2, THEN conjunct2, THEN conjunct2, THEN conjunct2, THEN conjunct2, THEN conjunct2, THEN conjunct2, THEN conjunct2, THEN conjunct2, THEN conjunct2, THEN conjunct2, THEN conjunct2, THEN conjunct2, THEN conjunct2, THEN conjunct2, THEN conjunct2, THEN conjunct2, THEN conjunct2, THEN conjunct2, THEN conjunct2, THEN conjunct2, THEN conjunct2, THEN conjunct2, THEN conjunct2, THEN conjunct2, THEN conjunct1, THEN mp, OF hs]
  note w28 = Tr[THEN conjunct2, THEN conjunct2, THEN conjunct2, THEN conjunct2, THEN conjunct2, THEN conjunct2, THEN conjunct2, THEN conjunct2, THEN conjunct2, THEN conjunct2, THEN conjunct2, THEN conjunct2, THEN conjunct2, THEN conjunct2, THEN conjunct2, THEN conjunct2, THEN conjunct2, THEN conjunct2, THEN conjunct2, THEN conjunct2, THEN conjunct2, THEN conjunct2, THEN conjunct2, THEN conjunct2, THEN conjunct2, THEN conjunct2, THEN conjunct2, THEN conjunct1, THEN mp, OF hr]
  note w29 = Tr[THEN conjunct2, THEN conjunct2, THEN conjunct2, THEN conjunct2, THEN conjunct2, THEN conjunct2, THEN conjunct2, THEN conjunct2, THEN conjunct2, THEN conjunct2, THEN conjunct2, THEN conjunct2, THEN conjunct2, THEN conjunct2, THEN conjunct2, THEN conjunct2, THEN conjunct2, THEN conjunct2, THEN conjunct2, THEN conjunct2, THEN conjunct2, THEN conjunct2, THEN conjunct2, THEN conjunct2, THEN conjunct2, THEN conjunct2, THEN conjunct2, THEN conjunct2, THEN conjunct1, THEN mp, OF hr]
  note w30 = Tr[THEN conjunct2, THEN conjunct2, THEN conjunct2, THEN conjunct2, THEN conjunct2, THEN conjunct2, THEN conjunct2, THEN conjunct2, THEN conjunct2, THEN conjunct2, THEN conjunct2, THEN conjunct2, THEN conjunct2, THEN conjunct2, THEN conjunct2, THEN conjunct2, THEN conjunct2, THEN conjunct2, THEN conjunct2, THEN conjunct2, THEN conjunct2, THEN conjunct2, THEN conjunct2, THEN conjunct2, THEN conjunct2, THEN conjunct2, THEN conjunct2, THEN conjunct2, THEN conjunct2, THEN conjunct1, THEN mp, OF hf]
  have hg: "STOP_ALL (fst (stopall_route no_failure (init_state default_config))) \<and>
      thread_run default_config 2 (led_breathe 255 0 0 2, (fst (stopall_route no_failure (init_state default_config))), [])
        = ([], (fst (stopall_route no_failure (init_state default_config))\<lparr>hw := hw (fst (stopall_route no_failure (init_state default_config))) @ [Color_wipe 0 0 0]\<rparr>), [])"
    using hs w6 by simp
  note w31 = Ts[THEN conjunct2, THEN conjunct2, THEN conjunct2, THEN conjunct2, THEN conjunct2, THEN conjunct2, THEN conjunct2, THEN conjunct2, THEN conjunct2, THEN conjunct2, THEN conjunct2, THEN conjunct2, THEN conjunct2, THEN conjunct2, THEN conjunct2, THEN conjunct2, THEN conjunct2, THEN conjunct2, THEN conjunct2, THEN conjunct2, THEN conjunct2, THEN conjunct2, THEN conjunct2, THEN conjunct2, THEN conjunct2, THEN conjunct2, THEN conjunct2, THEN conjunct2, THEN conjunct2, THEN conjunct2, THEN mp, OF hg]
  from w1 w2 w3 w4 w5 w6 w7 w8 w9 w10 w11 w12 w13 w14 w15 w16 w17 w18 w19 w20 w21 w22 w23 w24 w25 w26 w27 w28 w29 w30 w31[THEN conjunct1] w31[THEN conjunct2]
  show ?thesis by (intro conjI)
qed

end
